theory Spec2Isabelle
  imports Complex_Main
begin

section \<open>Frame composition of the liveline chart\<close>

text \<open>
  A shallow embedding of the draw orchestration module (\<open>drawFrame\<close>,
  \<open>drawMultiFrame\<close>, \<open>drawCandleFrame\<close>) and of \<open>drawBars\<close>.
  JavaScript numbers are taken as exact reals: the embedding says nothing about rounding,
  NaN or infinities.
\<close>

subsection \<open>Constants\<close>

definition SHAKE_DECAY_RATE :: real where
  "SHAKE_DECAY_RATE = 0.002"

definition SHAKE_MIN_AMPLITUDE :: real where
  "SHAKE_MIN_AMPLITUDE = 0.2"

definition FADE_EDGE_WIDTH :: real where
  "FADE_EDGE_WIDTH = 40"

definition CROSSHAIR_FADE_MIN_PX :: real where
  "CROSSHAIR_FADE_MIN_PX = 5"

subsection \<open>Data\<close>

text \<open>
  The types of \<open>../types\<close> are not part of the sources at hand; each record has the fields
  that the modelled functions read. Isabelle record fields are global names, so where
  interfaces of the source share a field name, or a field name is a common variable name, the
  fields carry a prefix: \<open>pt_\<close> (LivelinePoint), \<open>pad_\<close> (Padding), \<open>layout_\<close> (the \<open>w\<close> and
  \<open>h\<close> of ChartLayout), \<open>bar_\<close> (BarPoint), \<open>b_\<close> (BarDrawOptions), \<open>he_\<close>
  (MultiSeriesHoverEntry), \<open>o_\<close> (DrawOptions), \<open>s_\<close> (MultiSeriesEntry), \<open>m_\<close>
  (MultiSeriesDrawOptions), \<open>ap_\<close> (the elements of \<open>allPts\<close>) and \<open>c_\<close>
  (CandleDrawOptions). An optional object that is only tested for presence and forwarded has
  the type \<open>unit option\<close>.
\<close>

record LivelinePoint =
  pt_time :: real
  pt_value :: real

record LivelinePalette =
  line :: string
  gridLabel :: string
  dashLine :: string

record Padding =
  pad_top :: real
  pad_right :: real
  pad_bottom :: real
  pad_left :: real

record ChartLayout =
  layout_w :: real
  layout_h :: real
  pad :: Padding
  chartW :: real
  chartH :: real
  leftEdge :: real
  rightEdge :: real
  toX :: "real \<Rightarrow> real"
  toY :: "real \<Rightarrow> real"

record CandlePoint =
  time :: real
  open' :: real
  high :: real
  low :: real
  close :: real

record BarPoint =
  bar_time :: real
  bar_value :: real

datatype BarMode = Default | Overlay

record BarLayout =
  bottom :: real
  maxHeight :: real
  maxValue :: real

record BarDrawOptions =
  b_bars :: "BarPoint list"
  b_barWidthSecs :: real
  b_fillColor :: string
  b_labelColor :: string
  b_scrubX :: "real option"
  b_scrubAmount :: real
  b_revealProgress :: real
  b_showLabels :: bool

record MultiSeriesHoverEntry =
  he_color :: string
  he_label :: string
  he_value :: real

text \<open>The arguments of a call of \<open>drawLine\<close>; the last three are passed by the candle composer only.\<close>

record DrawLineArgs =
  dl_palette :: LivelinePalette
  dl_visible :: "LivelinePoint list"
  dl_smoothValue :: real
  dl_now :: real
  dl_showFill :: bool
  dl_scrubX :: "real option"
  dl_scrubAmount :: real
  dl_reveal :: real
  dl_now_ms :: real
  dl_colorBlend :: "real option"
  dl_skipDash :: "bool option"
  dl_fillScale :: "real option"

subsection \<open>The drawing context\<close>

text \<open>
  The composers never read a pixel: what they do to the canvas is the sequence of calls they
  make. \<open>prim\<close> lists the operations of \<open>CanvasRenderingContext2D\<close> that the modelled code
  uses (an assignment to a property is a \<open>Set...\<close> operation), \<open>ext\<close> the calls of the
  drawing modules that are not expanded here, with the arguments the composer computes.
  Arguments that are only forwarded (formatters, grid, axis, arrow and particle state, tooltip
  options) are left out.
\<close>

datatype prim =
    Save
  | Restore
  | Translate real real
  | SetGlobalAlpha real
  | SetGlobalCompositeOperation string
  | SetFillStyle string
  | SetFillStyleGradient
  | SetStrokeStyle string
  | SetLineWidth real
  | SetLineDash "real list"
  | SetFont string
  | SetTextAlign string
  | SetTextBaseline string
  | CreateLinearGradient real real real real
  | AddColorStop real string
  | BeginPath
  | ClosePath
  | MoveTo real real
  | LineTo real real
  | ArcTo real real real real real
  | Rect real real real real
  | Clip
  | Fill
  | Stroke
  | FillRect real real real real
  | FillText string real real

datatype ext =
    DrawReferenceLine
  | DrawGrid real
  | DrawOrderbook real real
  | DrawLine DrawLineArgs
  | DrawTimeAxis real real real
  | DrawDot real real bool real real
  | DrawArrows real real real real
  | SpawnOnSwing real real real string real
  | DrawParticles real
  | DrawCrosshair real real real real real
  | DrawMultiCrosshair real real "MultiSeriesHoverEntry list" real real
  | DrawSimpleDot real real string real
  | DrawMultiDot real real string bool real real
  | DrawCandlesticks "CandlePoint list" real real real real real real real "string option" real
  | DrawClosePrice CandlePoint real real
  | DrawCandleCrosshair real CandlePoint real real
  | DrawLineModeCrosshair real real real real
  | DrawEmpty real real real real bool "string option"

datatype call = Prim prim | Ext ext

text \<open>
  The state of the context that the modelled code depends on: the global alpha, the
  translation of the transform, and the stack of \<open>save\<close>. Every call is logged with the alpha
  and the translation in force when it is made.
\<close>

datatype logged = Logged (at_alpha: real) (at_shift: "real \<times> real") (the_call: call)

record ctx =
  globalAlpha :: real
  translation :: "real \<times> real"
  saved :: "(real \<times> real \<times> real) list"
  calls :: "logged list"

text \<open>
  \<open>restore\<close> on an empty stack does nothing, as on a canvas. An assignment to
  \<open>globalAlpha\<close> stores the value; for progress values in \<open>[0,1]\<close> the modelled code assigns
  no value outside \<open>[0,1]\<close>, which a canvas would ignore. The calls of the drawing modules
  are taken to leave alpha, transform and stack as they found them. \<open>drawCrosshair\<close> and
  \<open>drawMultiCrosshair\<close> are logged in the same way: each is the last layer of its composer,
  and in their source every \<open>save\<close> is followed by its \<open>restore\<close> on every path.
\<close>

definition effect :: "call \<Rightarrow> ctx \<Rightarrow> ctx" where
  "effect k c =
     (case k of
        Prim Save \<Rightarrow> c\<lparr> saved := (globalAlpha c, translation c) # saved c \<rparr>
      | Prim Restore \<Rightarrow>
          (case saved c of
             [] \<Rightarrow> c
           | (a, t) # rest \<Rightarrow> c\<lparr> globalAlpha := a, translation := t, saved := rest \<rparr>)
      | Prim (Translate x y) \<Rightarrow>
          c\<lparr> translation := (fst (translation c) + x, snd (translation c) + y) \<rparr>
      | Prim (SetGlobalAlpha a) \<Rightarrow> c\<lparr> globalAlpha := a \<rparr>
      | _ \<Rightarrow> c)"

definition issue :: "call \<Rightarrow> ctx \<Rightarrow> ctx" where
  "issue k c = (effect k c)\<lparr> calls := calls c @ [Logged (globalAlpha c) (translation c) k] \<rparr>"

fun run :: "call list \<Rightarrow> ctx \<Rightarrow> ctx" where
  "run [] c = c"
| "run (k # ks) c = run ks (issue k c)"

declare run.simps [simp del]

text \<open>A fresh context: alpha 1, identity transform, empty stack, nothing drawn.\<close>

definition ctx0 :: ctx where
  "ctx0 = \<lparr> globalAlpha = 1, translation = (0, 0), saved = [], calls = [] \<rparr>"

text \<open>The calls a function has added to a context, given the context before.\<close>

definition issued :: "ctx \<Rightarrow> ctx \<Rightarrow> call list" where
  "issued before after = map the_call (drop (length (calls before)) (calls after))"

subsection \<open>Bars\<close>

text \<open>
  \<open>toFixed\<close> and \<open>Math.round(v).toString()\<close> print a number; how they print it is outside
  this embedding and comes in as a parameter.
\<close>

record NumberFormat =
  toFixed :: "nat \<Rightarrow> real \<Rightarrow> string"
  roundToString :: "real \<Rightarrow> string"

definition formatBarValue :: "NumberFormat \<Rightarrow> real \<Rightarrow> string" where
  "formatBarValue nf v =
     (if v \<ge> 1000000 then toFixed nf 1 (v / 1000000) @ ''M''
      else if v \<ge> 1000 then toFixed nf 1 (v / 1000) @ ''K''
      else if v \<ge> 10 then roundToString nf v
      else if v \<ge> 1 then toFixed nf 1 v
      else toFixed nf 2 v)"

text \<open>
  One iteration of the first loop of \<open>drawBars\<close>: the canvas calls made for the bar \<open>b\<close>.
  \<open>barPxWidth\<close>, \<open>halfBar\<close>, \<open>cornerR\<close> and \<open>baseAlpha\<close> are the constants computed before
  the loop. An iteration reads nothing from the context.
\<close>

definition drawBar ::
  "ChartLayout \<Rightarrow> BarLayout \<Rightarrow> BarDrawOptions \<Rightarrow> real \<Rightarrow> real \<Rightarrow> real \<Rightarrow> real \<Rightarrow> BarPoint
     \<Rightarrow> call list" where
  "drawBar layout barLayout opts barPxWidth halfBar cornerR baseAlpha b =
     (if bar_value b \<le> 0 then []
      else
        let centerX = toX layout (bar_time b + b_barWidthSecs opts / 2);
            x = centerX - halfBar
        in
        if x + barPxWidth < pad_left (pad layout) \<or> x > pad_left (pad layout) + chartW layout
        then []
        else
          let rawHeight = (bar_value b / maxValue barLayout) * maxHeight barLayout;
              barH = rawHeight * b_revealProgress opts
          in
          if barH < 0.5 then []
          else
            let barY = bottom barLayout - barH in
            (case b_scrubX opts of
               None \<Rightarrow> []
             | Some scrubX \<Rightarrow>
                 if b_scrubAmount opts > 0.05 then
                   (let barCenter = centerX in
                    if barCenter > scrubX
                    then [Prim (SetGlobalAlpha (baseAlpha * (1 - b_scrubAmount opts * 0.6)))]
                    else [Prim (SetGlobalAlpha baseAlpha)])
                 else [])
            @ (if cornerR > 0 \<and> barH > cornerR * 2 then
                 [Prim BeginPath,
                  Prim (MoveTo x (bottom barLayout)),
                  Prim (LineTo x (barY + cornerR)),
                  Prim (ArcTo x barY (x + cornerR) barY cornerR),
                  Prim (LineTo (x + barPxWidth - cornerR) barY),
                  Prim (ArcTo (x + barPxWidth) barY (x + barPxWidth) (barY + cornerR) cornerR),
                  Prim (LineTo (x + barPxWidth) (bottom barLayout)),
                  Prim ClosePath,
                  Prim Fill]
               else [Prim (FillRect x barY barPxWidth barH)]))"

text \<open>One iteration of the label loop of \<open>drawBars\<close>.\<close>

definition drawBarLabel ::
  "NumberFormat \<Rightarrow> ChartLayout \<Rightarrow> BarLayout \<Rightarrow> BarDrawOptions \<Rightarrow> real \<Rightarrow> BarPoint
     \<Rightarrow> call list" where
  "drawBarLabel nf layout barLayout opts fontSize b =
     (if bar_value b \<le> 0 then []
      else
        let centerX = toX layout (bar_time b + b_barWidthSecs opts / 2) in
        if centerX < pad_left (pad layout) \<or> centerX > pad_left (pad layout) + chartW layout
        then []
        else
          let barH = (bar_value b / maxValue barLayout) * maxHeight barLayout
                       * b_revealProgress opts
          in
          if barH < fontSize + 6 then []
          else [Prim (FillText (formatBarValue nf (bar_value b)) centerX (bottom barLayout - 3))])"

definition drawBars ::
  "NumberFormat \<Rightarrow> ChartLayout \<Rightarrow> BarLayout \<Rightarrow> BarDrawOptions \<Rightarrow> ctx \<Rightarrow> ctx" where
  "drawBars nf layout barLayout opts c =
     (if b_bars opts = [] \<or> maxValue barLayout \<le> 0 then c
      else
        let pxPerSec = chartW layout / (rightEdge layout - leftEdge layout);
            barPxWidth = max 1 (b_barWidthSecs opts * pxPerSec - 2);
            halfBar = barPxWidth / 2;
            cornerR = (if barPxWidth > 6 then 1.5 else 0);
            baseAlpha = globalAlpha c;
            c1 = run [Prim (SetFillStyle (b_fillColor opts))] c;
            c2 = run (concat (map (drawBar layout barLayout opts barPxWidth halfBar cornerR baseAlpha)
                                  (b_bars opts))) c1;
            c3 = (if b_showLabels opts \<and> b_revealProgress opts > 0.5 then
                    let fontSize = (if layout_w layout > 500 then 9 else 8) in
                    run ([Prim Save,
                          Prim (SetFont (if layout_w layout > 500
                                         then ''9px \"SF Mono\", Menlo, monospace''
                                         else ''8px \"SF Mono\", Menlo, monospace'')),
                          Prim (SetTextAlign ''center''),
                          Prim (SetTextBaseline ''bottom''),
                          Prim (SetFillStyle (b_labelColor opts)),
                          Prim (SetGlobalAlpha
                                  (baseAlpha * min 1 ((b_revealProgress opts - 0.5) * 4)))]
                         @ concat (map (drawBarLabel nf layout barLayout opts fontSize)
                                       (b_bars opts))
                         @ [Prim Restore]) c2
                  else c2)
        in run [Prim (SetGlobalAlpha baseAlpha)] c3)"

subsection \<open>Shake state\<close>

record ShakeState =
  amplitude :: real

definition createShakeState :: ShakeState where
  "createShakeState = \<lparr> amplitude = 0 \<rparr>"

text \<open>
  The decay of \<open>drawFrame\<close>, step 0: \<open>shake.amplitude *= Math.pow(SHAKE_DECAY_RATE, dt / 1000)\<close>,
  then the snap to 0 below \<open>SHAKE_MIN_AMPLITUDE\<close>. The base is positive, so \<open>Math.pow\<close> is
  \<open>powr\<close>.
\<close>

definition decayShake :: "real \<Rightarrow> ShakeState \<Rightarrow> ShakeState" where
  "decayShake dt shake =
     (let decayRate = SHAKE_DECAY_RATE powr (dt / 1000);
          shake1 = shake\<lparr> amplitude := amplitude shake * decayRate \<rparr>
      in if amplitude shake1 < SHAKE_MIN_AMPLITUDE then shake1\<lparr> amplitude := 0 \<rparr> else shake1)"

text \<open>One decay per tick, for the tick deltas of a sequence of frames, first tick first.\<close>

fun decayTicks :: "ShakeState \<Rightarrow> real list \<Rightarrow> ShakeState" where
  "decayTicks shake [] = shake"
| "decayTicks shake (dt # dts) = decayTicks (decayShake dt shake) dts"

text \<open>The snap of \<open>decayShake\<close> on its own, for the closed form of a run of ticks.\<close>

definition snapAmplitude :: "real \<Rightarrow> real" where
  "snapAmplitude a = (if a < SHAKE_MIN_AMPLITUDE then 0 else a)"

subsection \<open>Progress ramp\<close>

text \<open>
  The closure \<open>revealRamp(start, end)\<close> is declared three times, once per composer, with the
  same body; it closes over \<open>reveal\<close>, which is the first argument here.
\<close>

definition revealRamp :: "real \<Rightarrow> real \<Rightarrow> real \<Rightarrow> real" where
  "revealRamp reveal start end' =
     (let t = max 0 (min 1 ((reveal - start) / (end' - start)))
      in t * t * (3 - 2 * t))"

subsection \<open>Candles\<close>

text \<open>
  \<open>collapseC\<close> of \<open>drawCandleFrame\<close>; it closes over \<open>ohlcScale\<close>, the first argument here.
\<close>

definition collapseC :: "real \<Rightarrow> CandlePoint \<Rightarrow> CandlePoint" where
  "collapseC ohlcScale c =
     (if ohlcScale \<ge> 0.99 then c
      else \<lparr> time = time c,
             open' = close c + (open' c - close c) * ohlcScale,
             high = close c + (high c - close c) * ohlcScale,
             low = close c + (low c - close c) * ohlcScale,
             close = close c \<rparr>)"

text \<open>The ordering invariant of a candle, as the data model states it.\<close>

definition candle_ordered :: "CandlePoint \<Rightarrow> bool" where
  "candle_ordered c \<longleftrightarrow>
     low c \<le> min (open' c) (close c) \<and> min (open' c) (close c) \<le> max (open' c) (close c)
     \<and> max (open' c) (close c) \<le> high c"

subsection \<open>Line presence and colour blend of the candle composer\<close>

definition fullLineMode :: "real \<Rightarrow> bool" where
  "fullLineMode lineModeProg \<longleftrightarrow> lineModeProg \<ge> 0.99"

definition revealLine :: "real \<Rightarrow> real \<Rightarrow> real" where
  "revealLine lineModeProg reveal =
     (if fullLineMode lineModeProg then 1 - reveal
      else (1 - reveal) * (1 - reveal) * (1 - reveal))"

definition lp :: "real \<Rightarrow> real \<Rightarrow> real" where
  "lp lineModeProg reveal = max lineModeProg (revealLine lineModeProg reveal)"

definition colorBlend :: "real \<Rightarrow> real \<Rightarrow> real" where
  "colorBlend lineModeProg reveal =
     (if lp lineModeProg reveal > 0.001 then lineModeProg / lp lineModeProg reveal else 1)"

subsection \<open>Crosshair proximity fade\<close>

text \<open>
  The fade is written out three times in the source. Each site is transcribed on its own:
  step 5 of \<open>drawFrame\<close> (the scrub dimming of the live dot, which keeps \<open>scrubAmount\<close> when
  there is no hover or \<open>scrubAmount\<close> is not positive), step 8 of \<open>drawFrame\<close>, and step 7 of
  \<open>drawMultiFrame\<close>.
\<close>

definition frame_dotScrub :: "ChartLayout \<Rightarrow> real option \<Rightarrow> real \<Rightarrow> real \<Rightarrow> real" where
  "frame_dotScrub layout hoverX scrubAmount lastX =
     (let dotScrub = scrubAmount in
      case hoverX of
        None \<Rightarrow> dotScrub
      | Some hx \<Rightarrow>
          if dotScrub > 0 then
            (let distToLive = lastX - hx;
                 fadeStart = min 80 (chartW layout * 0.3)
             in if distToLive < CROSSHAIR_FADE_MIN_PX then 0
                else if distToLive \<ge> fadeStart then scrubAmount
                else ((distToLive - CROSSHAIR_FADE_MIN_PX) / (fadeStart - CROSSHAIR_FADE_MIN_PX))
                       * scrubAmount)
          else dotScrub)"

definition frame_scrubOpacity :: "ChartLayout \<Rightarrow> real \<Rightarrow> real \<Rightarrow> real \<Rightarrow> real" where
  "frame_scrubOpacity layout hoverX scrubAmount lastX =
     (let distToLive = lastX - hoverX;
          fadeStart = min 80 (chartW layout * 0.3)
      in if distToLive < CROSSHAIR_FADE_MIN_PX then 0
         else if distToLive \<ge> fadeStart then scrubAmount
         else ((distToLive - CROSSHAIR_FADE_MIN_PX) / (fadeStart - CROSSHAIR_FADE_MIN_PX))
                * scrubAmount)"

definition multi_scrubOpacity :: "ChartLayout \<Rightarrow> real \<Rightarrow> real \<Rightarrow> real \<Rightarrow> real" where
  "multi_scrubOpacity layout hoverX scrubAmount maxLiveDotX =
     (let distToLive = maxLiveDotX - hoverX;
          fadeStart = min 80 (chartW layout * 0.3)
      in if distToLive < CROSSHAIR_FADE_MIN_PX then 0
         else if distToLive \<ge> fadeStart then scrubAmount
         else ((distToLive - CROSSHAIR_FADE_MIN_PX) / (fadeStart - CROSSHAIR_FADE_MIN_PX))
                * scrubAmount)"


subsection \<open>Idioms shared by the composers\<close>

text \<open>
  \<open>ctx.save(); if (a < 1) ctx.globalAlpha = a; ...; ctx.restore()\<close> surrounds most layers.
\<close>

definition layer :: "real \<Rightarrow> call list \<Rightarrow> call list" where
  "layer a ks = [Prim Save] @ (if a < 1 then [Prim (SetGlobalAlpha a)] else []) @ ks @ [Prim Restore]"

text \<open>
  The left edge fade, the same statements in all three composers: a \<open>destination-out\<close>
  gradient over the first \<open>FADE_EDGE_WIDTH\<close> pixels of the plot.
\<close>

definition leftEdgeFade :: "ChartLayout \<Rightarrow> call list" where
  "leftEdgeFade layout =
     [Prim Save,
      Prim (SetGlobalCompositeOperation ''destination-out''),
      Prim (CreateLinearGradient (pad_left (pad layout)) 0
              (pad_left (pad layout) + FADE_EDGE_WIDTH) 0),
      Prim (AddColorStop 0 ''rgba(0, 0, 0, 1)''),
      Prim (AddColorStop 1 ''rgba(0, 0, 0, 0)''),
      Prim SetFillStyleGradient,
      Prim (FillRect 0 0 (pad_left (pad layout) + FADE_EDGE_WIDTH) (layout_h layout)),
      Prim Restore]"

text \<open>
  The bar options that the composers build, the same object literal at all four call sites.
  A JavaScript condition on a number holds when it is not 0, on a string when it is not
  empty, on an object when it is there.
\<close>

definition barOptions ::
  "LivelinePalette \<Rightarrow> BarPoint list \<Rightarrow> real \<Rightarrow> string \<Rightarrow> real \<Rightarrow> real option \<Rightarrow> real
     \<Rightarrow> bool option \<Rightarrow> BarDrawOptions" where
  "barOptions palette bars barWidthSecs barFillColor scrubAmount hoverX reveal barShowLabels =
     \<lparr> b_bars = bars,
       b_barWidthSecs = barWidthSecs,
       b_fillColor = barFillColor,
       b_labelColor = gridLabel palette,
       b_scrubX = (if scrubAmount > 0.05 then hoverX else None),
       b_scrubAmount = scrubAmount,
       b_revealProgress = (if reveal < 1 then revealRamp reveal 0.1 0.8 else 1),
       b_showLabels = (case barShowLabels of None \<Rightarrow> False | Some v \<Rightarrow> v) \<rparr>"

definition truthyString :: "string option \<Rightarrow> bool" where
  "truthyString v \<longleftrightarrow> (case v of None \<Rightarrow> False | Some s \<Rightarrow> s \<noteq> [])"

subsection \<open>The single-series composer\<close>

record DrawOptions =
  o_visible :: "LivelinePoint list"
  o_smoothValue :: real
  o_now :: real
  o_showGrid :: bool
  o_showMomentum :: bool
  o_showPulse :: bool
  o_showFill :: bool
  o_referenceLine :: "unit option"
  o_hoverX :: "real option"
  o_hoverValue :: "real option"
  o_hoverTime :: "real option"
  o_scrubAmount :: real
  o_windowSecs :: real
  o_dt :: real
  o_targetWindowSecs :: real
  o_orderbookData :: "unit option"
  o_orderbookState :: "unit option"
  o_particleState :: "unit option"
  o_swingMagnitude :: real
  o_shakeState :: "ShakeState option"
  o_chartReveal :: real
  o_pauseProgress :: real
  o_now_ms :: real
  o_bars :: "BarPoint list option"
  o_barWidthSecs :: "real option"
  o_barMode :: "BarMode option"
  o_barFillColor :: "string option"
  o_barLayout :: "BarLayout option"
  o_barShowLabels :: "bool option"

text \<open>
  What a frame gets back from outside: the two results of \<open>Math.random()\<close> (in \<open>[0,1)\<close>), the
  points that \<open>drawLine\<close> returns (\<open>None\<close> for \<open>undefined\<close>), and the burst intensity that
  \<open>spawnOnSwing\<close> returns.
\<close>

record FrameEnv =
  rand1 :: real
  rand2 :: real
  linePts :: "(real \<times> real) list option"
  burstIntensity :: real

text \<open>Step 0: the shake offset. The result carries \<open>shakeX\<close> and \<open>shakeY\<close>.\<close>

definition frameShake :: "FrameEnv \<Rightarrow> DrawOptions \<Rightarrow> ctx \<Rightarrow> ctx \<times> real \<times> real" where
  "frameShake env opts c =
     (case o_shakeState opts of
        None \<Rightarrow> (c, 0, 0)
      | Some shake \<Rightarrow>
          if amplitude shake > SHAKE_MIN_AMPLITUDE then
            (let shakeX = (rand1 env - 0.5) * 2 * amplitude shake;
                 shakeY = (rand2 env - 0.5) * 2 * amplitude shake
             in (run [Prim Save, Prim (Translate shakeX shakeY)] c, shakeX, shakeY))
          else (c, 0, 0))"

text \<open>Step 1: the reference line.\<close>

definition frameReferenceLine :: "DrawOptions \<Rightarrow> ctx \<Rightarrow> ctx" where
  "frameReferenceLine opts c =
     (let reveal = o_chartReveal opts in
      if o_referenceLine opts \<noteq> None \<and> reveal > 0.01
      then run (layer reveal [Ext DrawReferenceLine]) c
      else c)"

text \<open>Step 2: the grid.\<close>

definition frameGrid :: "DrawOptions \<Rightarrow> ctx \<Rightarrow> ctx" where
  "frameGrid opts c =
     (let reveal = o_chartReveal opts in
      if o_showGrid opts then
        (let gridAlpha = (if reveal < 1 then revealRamp reveal 0.15 0.7 else 1) in
         if gridAlpha > 0.01 then run (layer gridAlpha [Ext (DrawGrid (o_dt opts))]) c else c)
      else c)"

text \<open>Step 2b: the order book.\<close>

definition frameOrderbook :: "DrawOptions \<Rightarrow> ctx \<Rightarrow> ctx" where
  "frameOrderbook opts c =
     (let reveal = o_chartReveal opts in
      if o_orderbookData opts \<noteq> None \<and> o_orderbookState opts \<noteq> None \<and> reveal > 0.01
      then run (layer reveal [Ext (DrawOrderbook (o_dt opts) (o_swingMagnitude opts))]) c
      else c)"

text \<open>Steps 2c and 6b: the bars, in overlay mode behind the line, in default mode clipped to
  the bottom strip.\<close>

definition frameBarsOverlay ::
  "NumberFormat \<Rightarrow> ChartLayout \<Rightarrow> LivelinePalette \<Rightarrow> DrawOptions \<Rightarrow> ctx \<Rightarrow> ctx" where
  "frameBarsOverlay nf layout palette opts c =
     (let reveal = o_chartReveal opts in
      case (o_bars opts, o_barLayout opts, o_barWidthSecs opts, o_barFillColor opts) of
        (Some bars, Some barLayout, Some barWidthSecs, Some barFillColor) \<Rightarrow>
          if barWidthSecs \<noteq> 0 \<and> o_barMode opts = Some Overlay \<and> barFillColor \<noteq> [] then
            (let barAlpha = (if reveal < 1 then revealRamp reveal 0.1 0.6 else 1) in
             if barAlpha > 0.01 then
               (let c1 = run ([Prim Save]
                              @ (if barAlpha < 1 then [Prim (SetGlobalAlpha barAlpha)] else [])) c;
                    c2 = drawBars nf layout barLayout
                           (barOptions palette bars barWidthSecs barFillColor (o_scrubAmount opts)
                              (o_hoverX opts) reveal (o_barShowLabels opts)) c1
                in run [Prim Restore] c2)
             else c)
          else c
      | _ \<Rightarrow> c)"

definition frameBarsDefault ::
  "NumberFormat \<Rightarrow> ChartLayout \<Rightarrow> LivelinePalette \<Rightarrow> DrawOptions \<Rightarrow> ctx \<Rightarrow> ctx" where
  "frameBarsDefault nf layout palette opts c =
     (let reveal = o_chartReveal opts in
      case (o_bars opts, o_barLayout opts, o_barWidthSecs opts, o_barFillColor opts) of
        (Some bars, Some barLayout, Some barWidthSecs, Some barFillColor) \<Rightarrow>
          if barWidthSecs \<noteq> 0 \<and> o_barMode opts = Some Default \<and> barFillColor \<noteq> [] then
            (let barAlpha = (if reveal < 1 then revealRamp reveal 0.15 0.7 else 1) in
             if barAlpha > 0.01 then
               (let c1 = run ([Prim Save,
                               Prim BeginPath,
                               Prim (Rect (pad_left (pad layout))
                                       (bottom barLayout - maxHeight barLayout)
                                       (chartW layout) (maxHeight barLayout)),
                               Prim Clip]
                              @ (if barAlpha < 1 then [Prim (SetGlobalAlpha barAlpha)] else [])) c;
                    c2 = drawBars nf layout barLayout
                           (barOptions palette bars barWidthSecs barFillColor (o_scrubAmount opts)
                              (o_hoverX opts) reveal (o_barShowLabels opts)) c1
                in run [Prim Restore] c2)
             else c)
          else c
      | _ \<Rightarrow> c)"

text \<open>
  Step 3: the line. It is drawn in every frame; its points come back in \<open>linePts\<close>.
  \<open>frameLineArgs\<close> are the arguments of the call.
\<close>

definition frameLineArgs :: "LivelinePalette \<Rightarrow> DrawOptions \<Rightarrow> DrawLineArgs" where
  "frameLineArgs palette opts =
     (let reveal = o_chartReveal opts;
          scrubX = (if o_scrubAmount opts > 0.05 then o_hoverX opts else None)
      in \<lparr> dl_palette = palette, dl_visible = o_visible opts,
           dl_smoothValue = o_smoothValue opts, dl_now = o_now opts,
           dl_showFill = o_showFill opts, dl_scrubX = scrubX,
           dl_scrubAmount = o_scrubAmount opts, dl_reveal = reveal,
           dl_now_ms = o_now_ms opts, dl_colorBlend = None, dl_skipDash = None,
           dl_fillScale = None \<rparr>)"

definition frameLine :: "LivelinePalette \<Rightarrow> DrawOptions \<Rightarrow> ctx \<Rightarrow> ctx" where
  "frameLine palette opts c = run [Ext (DrawLine (frameLineArgs palette opts))] c"

text \<open>Step 4: the time axis.\<close>

definition frameTimeAxis :: "DrawOptions \<Rightarrow> ctx \<Rightarrow> ctx" where
  "frameTimeAxis opts c =
     (let reveal = o_chartReveal opts;
          timeAlpha = (if reveal < 1 then revealRamp reveal 0.15 0.7 else 1)
      in if timeAlpha > 0.01
         then run (layer timeAlpha
                     [Ext (DrawTimeAxis (o_windowSecs opts) (o_targetWindowSecs opts) (o_dt opts))]) c
         else c)"

text \<open>Step 5: the live dot, at the last point of the line.\<close>

definition frameDot :: "ChartLayout \<Rightarrow> DrawOptions \<Rightarrow> real \<times> real \<Rightarrow> ctx \<Rightarrow> ctx" where
  "frameDot layout opts lastPt c =
     (let reveal = o_chartReveal opts;
          pause = o_pauseProgress opts;
          dotScrub = frame_dotScrub layout (o_hoverX opts) (o_scrubAmount opts) (fst lastPt);
          dotAlpha = (if reveal < 0.3 then 0 else (reveal - 0.3) / 0.7);
          showPulse = (o_showPulse opts \<and> reveal > 0.6 \<and> pause < 0.5)
      in if dotAlpha > 0.01
         then run (layer dotAlpha
                     [Ext (DrawDot (fst lastPt) (snd lastPt) showPulse dotScrub (o_now_ms opts))]) c
         else c)"

text \<open>Step 5b: the momentum arrows.\<close>

definition frameArrows :: "DrawOptions \<Rightarrow> real \<times> real \<Rightarrow> ctx \<Rightarrow> ctx" where
  "frameArrows opts lastPt c =
     (let reveal = o_chartReveal opts;
          pause = o_pauseProgress opts
      in if o_showMomentum opts then
           (let arrowReveal = (if reveal < 1 then revealRamp reveal 0.6 1 else 1);
                arrowAlpha = arrowReveal * (1 - pause)
            in if arrowAlpha > 0.01
               then run (layer arrowAlpha
                           [Ext (DrawArrows (fst lastPt) (snd lastPt) (o_dt opts) (o_now_ms opts))]) c
               else c)
         else c)"

text \<open>
  Step 6: the particles. A burst re-arms the shake state, which is the one already decayed in
  step 0.
\<close>

definition frameParticles ::
  "FrameEnv \<Rightarrow> LivelinePalette \<Rightarrow> DrawOptions \<Rightarrow> real \<times> real \<Rightarrow> ctx \<times> ShakeState option
     \<Rightarrow> ctx \<times> ShakeState option" where
  "frameParticles env palette opts lastPt st =
     (let reveal = o_chartReveal opts; c = fst st; shake = snd st in
      if o_particleState opts \<noteq> None \<and> reveal > 0.9 then
        (let c1 = run [Ext (SpawnOnSwing (fst lastPt) (snd lastPt) (o_swingMagnitude opts)
                              (line palette) (o_dt opts))] c;
             burst = burstIntensity env;
             shake1 = (case shake of
                         None \<Rightarrow> None
                       | Some sh \<Rightarrow>
                           if burst > 0
                           then Some (sh\<lparr> amplitude := (3 + o_swingMagnitude opts * 4) * burst \<rparr>)
                           else Some sh)
         in (run [Ext (DrawParticles (o_dt opts))] c1, shake1))
      else (c, shake))"

text \<open>Step 8: the crosshair.\<close>

definition frameCrosshair :: "FrameEnv \<Rightarrow> ChartLayout \<Rightarrow> DrawOptions \<Rightarrow> ctx \<Rightarrow> ctx" where
  "frameCrosshair env layout opts c =
     (case (o_hoverX opts, o_hoverValue opts, o_hoverTime opts, linePts env) of
        (Some hoverX, Some hoverValue, Some hoverTime, Some pts) \<Rightarrow>
          if length pts > 0 then
            (let lastPt = last pts;
                 scrubOpacity = frame_scrubOpacity layout hoverX (o_scrubAmount opts) (fst lastPt)
             in if scrubOpacity > 0.01
                then run [Ext (DrawCrosshair hoverX hoverValue hoverTime scrubOpacity (fst lastPt))] c
                else c)
          else c
      | _ \<Rightarrow> c)"

text \<open>
  \<open>drawFrame\<close>. The shake state of the caller is mutated in place; here the new state is
  returned with the context.
\<close>

definition drawFrame ::
  "FrameEnv \<Rightarrow> NumberFormat \<Rightarrow> ctx \<Rightarrow> ChartLayout \<Rightarrow> LivelinePalette \<Rightarrow> DrawOptions
     \<Rightarrow> ctx \<times> ShakeState option" where
  "drawFrame env nf ctx layout palette opts =
     (let (c0, shakeX, shakeY) = frameShake env opts ctx;
          shake = map_option (decayShake (o_dt opts)) (o_shakeState opts);
          c1 = frameReferenceLine opts c0;
          c2 = frameGrid opts c1;
          c2b = frameOrderbook opts c2;
          c2c = frameBarsOverlay nf layout palette opts c2b;
          c3 = frameLine palette opts c2c;
          pts = linePts env;
          c4 = frameTimeAxis opts c3;
          (c6, shake6) =
            (case pts of
               None \<Rightarrow> (c4, shake)
             | Some ps \<Rightarrow>
                 if length ps > 0 then
                   (let lastPt = last ps;
                        c5 = frameDot layout opts lastPt c4;
                        c5b = frameArrows opts lastPt c5
                    in frameParticles env palette opts lastPt (c5b, shake))
                 else (c4, shake));
          c6b = frameBarsDefault nf layout palette opts c6;
          c7 = run (leftEdgeFade layout) c6b;
          c8 = frameCrosshair env layout opts c7;
          c9 = (if o_shakeState opts \<noteq> None \<and> (shakeX \<noteq> 0 \<or> shakeY \<noteq> 0)
                then run [Prim Restore] c8 else c8)
      in (c9, shake6))"

subsection \<open>The multi-series composer\<close>

record MultiSeriesEntry =
  s_visible :: "LivelinePoint list"
  s_smoothValue :: real
  s_palette :: LivelinePalette
  s_label :: "string option"
  s_alpha :: "real option"

record MultiSeriesDrawOptions =
  m_series :: "MultiSeriesEntry list"
  m_now :: real
  m_showGrid :: bool
  m_showPulse :: bool
  m_referenceLine :: "unit option"
  m_hoverX :: "real option"
  m_hoverTime :: "real option"
  m_hoverEntries :: "MultiSeriesHoverEntry list"
  m_scrubAmount :: real
  m_windowSecs :: real
  m_dt :: real
  m_targetWindowSecs :: real
  m_chartReveal :: real
  m_pauseProgress :: real
  m_now_ms :: real
  m_primaryPalette :: LivelinePalette

text \<open>An element of the local array \<open>allPts\<close>.\<close>

record AllPtsEntry =
  ap_pts :: "(real \<times> real) list"
  ap_palette :: LivelinePalette
  ap_label :: "string option"
  ap_alpha :: real

text \<open>Steps 1 and 2: reference line and grid.\<close>

definition multiReferenceLine :: "MultiSeriesDrawOptions \<Rightarrow> ctx \<Rightarrow> ctx" where
  "multiReferenceLine opts c =
     (let reveal = m_chartReveal opts in
      if m_referenceLine opts \<noteq> None \<and> reveal > 0.01
      then run (layer reveal [Ext DrawReferenceLine]) c
      else c)"

definition multiGrid :: "MultiSeriesDrawOptions \<Rightarrow> ctx \<Rightarrow> ctx" where
  "multiGrid opts c =
     (let reveal = m_chartReveal opts in
      if m_showGrid opts then
        (let gridAlpha = (if reveal < 1 then revealRamp reveal 0.15 0.7 else 1) in
         if gridAlpha > 0.01 then run (layer gridAlpha [Ext (DrawGrid (m_dt opts))]) c else c)
      else c)"

text \<open>
  Step 3, the body of the loop over the series: \<open>si\<close> is the index, \<open>s\<close> the series, and
  \<open>ptsOf si\<close> what \<open>drawLine\<close> returns for it. The state is the context and \<open>allPts\<close>.
\<close>

definition secondaryFade :: "MultiSeriesDrawOptions \<Rightarrow> nat \<Rightarrow> real" where
  "secondaryFade opts si =
     (let reveal = m_chartReveal opts in
      if si > 0 \<and> reveal < 1 then min 1 (reveal * 2) else 1)"

definition seriesAlpha :: "MultiSeriesEntry \<Rightarrow> real" where
  "seriesAlpha s = (case s_alpha s of None \<Rightarrow> 1 | Some a \<Rightarrow> a)"

text \<open>The arguments of the call of \<open>drawLine\<close> for the series \<open>s\<close>.\<close>

definition multiLineArgs :: "MultiSeriesDrawOptions \<Rightarrow> MultiSeriesEntry \<Rightarrow> DrawLineArgs" where
  "multiLineArgs opts s =
     \<lparr> dl_palette = s_palette s, dl_visible = s_visible s,
       dl_smoothValue = s_smoothValue s, dl_now = m_now opts,
       dl_showFill = False,
       dl_scrubX = (if m_scrubAmount opts > 0.05 then m_hoverX opts else None),
       dl_scrubAmount = m_scrubAmount opts, dl_reveal = m_chartReveal opts,
       dl_now_ms = m_now_ms opts, dl_colorBlend = None,
       dl_skipDash = None, dl_fillScale = None \<rparr>"

definition multiSeriesStep ::
  "(nat \<Rightarrow> (real \<times> real) list option) \<Rightarrow> MultiSeriesDrawOptions \<Rightarrow> nat \<Rightarrow> MultiSeriesEntry
     \<Rightarrow> ctx \<times> AllPtsEntry list \<Rightarrow> ctx \<times> AllPtsEntry list" where
  "multiSeriesStep ptsOf opts si s st =
     (let c = fst st; allPts = snd st;
          combinedAlpha = secondaryFade opts si * seriesAlpha s
      in if combinedAlpha < 0.01 then (c, allPts)
         else
           (let c1 = run ([Prim Save]
                          @ (if combinedAlpha < 1 then [Prim (SetGlobalAlpha combinedAlpha)] else [])
                          @ [Ext (DrawLine (multiLineArgs opts s)), Prim Restore]) c
            in case ptsOf si of
                 None \<Rightarrow> (c1, allPts)
               | Some pts \<Rightarrow>
                   if length pts > 0
                   then (c1, allPts @ [\<lparr> ap_pts = pts, ap_palette = s_palette s,
                                          ap_label = s_label s, ap_alpha = seriesAlpha s \<rparr>])
                   else (c1, allPts)))"

fun multiSeriesLoop ::
  "(nat \<Rightarrow> (real \<times> real) list option) \<Rightarrow> MultiSeriesDrawOptions \<Rightarrow> nat \<Rightarrow> MultiSeriesEntry list
     \<Rightarrow> ctx \<times> AllPtsEntry list \<Rightarrow> ctx \<times> AllPtsEntry list" where
  "multiSeriesLoop ptsOf opts si [] st = st"
| "multiSeriesLoop ptsOf opts si (s # ss) st =
     multiSeriesLoop ptsOf opts (Suc si) ss (multiSeriesStep ptsOf opts si s st)"

text \<open>Step 4: the time axis.\<close>

definition multiTimeAxis :: "MultiSeriesDrawOptions \<Rightarrow> ctx \<Rightarrow> ctx" where
  "multiTimeAxis opts c =
     (let reveal = m_chartReveal opts;
          timeAlpha = (if reveal < 1 then revealRamp reveal 0.15 0.7 else 1)
      in if timeAlpha > 0.01
         then run (layer timeAlpha
                     [Ext (DrawTimeAxis (m_windowSecs opts) (m_targetWindowSecs opts) (m_dt opts))]) c
         else c)"

text \<open>
  Step 5: the endpoint dot and label of one entry of \<open>allPts\<close>. Every entry has at least one
  point, since only non-empty results of \<open>drawLine\<close> are pushed.
\<close>

definition multiDot :: "MultiSeriesDrawOptions \<Rightarrow> real \<Rightarrow> bool \<Rightarrow> AllPtsEntry \<Rightarrow> call list" where
  "multiDot opts dotAlpha showPulse entry =
     (if ap_alpha entry < 0.01 then []
      else
        (let lastPt = last (ap_pts entry) in
         [Prim Save, Prim (SetGlobalAlpha (dotAlpha * ap_alpha entry))]
         @ (if showPulse \<and> ap_alpha entry > 0.5
            then [Ext (DrawMultiDot (fst lastPt) (snd lastPt) (line (ap_palette entry)) True
                         (m_now_ms opts) 3)]
            else [Ext (DrawSimpleDot (fst lastPt) (snd lastPt) (line (ap_palette entry)) 3)])
         @ (if truthyString (ap_label entry)
            then [Prim (SetFont ''600 10px -apple-system, BlinkMacSystemFont, \"Segoe UI\", Helvetica, Arial, sans-serif''),
                  Prim (SetTextAlign ''left''),
                  Prim (SetFillStyle (line (ap_palette entry))),
                  Prim (FillText (the (ap_label entry)) (fst lastPt + 6) (snd lastPt + 3.5))]
            else [])
         @ [Prim Restore]))"

definition multiDots :: "MultiSeriesDrawOptions \<Rightarrow> AllPtsEntry list \<Rightarrow> ctx \<Rightarrow> ctx" where
  "multiDots opts allPts c =
     (let reveal = m_chartReveal opts in
      if reveal > 0.3 \<and> length allPts > 0 then
        (let dotAlpha = (reveal - 0.3) / 0.7;
             showPulse = (m_showPulse opts \<and> reveal > 0.6 \<and> m_pauseProgress opts < 0.5)
         in run (concat (map (multiDot opts dotAlpha showPulse) allPts)) c)
      else c)"

text \<open>Step 7: the rightmost live dot among the entries that are not hidden, starting from 0.\<close>

fun maxLiveDotX :: "real \<Rightarrow> AllPtsEntry list \<Rightarrow> real" where
  "maxLiveDotX m [] = m"
| "maxLiveDotX m (entry # rest) =
     (if ap_alpha entry < 0.01 then maxLiveDotX m rest
      else
        (let lastX = fst (last (ap_pts entry)) in
         maxLiveDotX (if lastX > m then lastX else m) rest))"

definition multiCrosshair ::
  "ChartLayout \<Rightarrow> MultiSeriesDrawOptions \<Rightarrow> AllPtsEntry list \<Rightarrow> ctx \<Rightarrow> ctx" where
  "multiCrosshair layout opts allPts c =
     (case (m_hoverX opts, m_hoverTime opts) of
        (Some hoverX, Some hoverTime) \<Rightarrow>
          if length (m_hoverEntries opts) > 0 \<and> length allPts > 0 \<and> m_scrubAmount opts > 0.01 then
            (let liveX = maxLiveDotX 0 allPts;
                 scrubOpacity = multi_scrubOpacity layout hoverX (m_scrubAmount opts) liveX
             in if scrubOpacity > 0.01
                then run [Ext (DrawMultiCrosshair hoverX hoverTime (m_hoverEntries opts)
                                 scrubOpacity liveX)] c
                else c)
          else c
      | _ \<Rightarrow> c)"

definition drawMultiFrame ::
  "(nat \<Rightarrow> (real \<times> real) list option) \<Rightarrow> ctx \<Rightarrow> ChartLayout \<Rightarrow> MultiSeriesDrawOptions \<Rightarrow> ctx" where
  "drawMultiFrame ptsOf ctx layout opts =
     (let c1 = multiReferenceLine opts ctx;
          c2 = multiGrid opts c1;
          (c3, allPts) = multiSeriesLoop ptsOf opts 0 (m_series opts) (c2, []);
          c4 = multiTimeAxis opts c3;
          c5 = multiDots opts allPts c4;
          c6 = run (leftEdgeFade layout) c5
      in multiCrosshair layout opts allPts c6)"

subsection \<open>The candlestick composer\<close>

record CandleDrawOptions =
  c_candles :: "CandlePoint list"
  c_displayCandleWidth :: real
  c_oldCandles :: "CandlePoint list"
  c_oldWidth :: real
  c_morphT :: real
  c_liveCandle :: "CandlePoint option"
  c_closePriceCandle :: "CandlePoint option"
  c_liveTime :: real
  c_liveBirthAlpha :: real
  c_liveBullBlend :: real
  c_lineModeProg :: real
  c_chartReveal :: real
  c_now_ms :: real
  c_now :: real
  c_pauseProgress :: real
  c_showGrid :: bool
  c_scrubAmount :: real
  c_hoverX :: "real option"
  c_hoverValue :: "real option"
  c_hoverTime :: "real option"
  c_hoveredCandle :: "CandlePoint option"
  c_dt :: real
  c_targetWindowSecs :: real
  c_lineVisible :: "LivelinePoint list"
  c_lineSmoothValue :: real
  c_emptyText :: "string option"
  c_loadingAlpha :: real
  c_showEmptyOverlay :: bool
  c_bars :: "BarPoint list option"
  c_barWidthSecs :: "real option"
  c_barMode :: "BarMode option"
  c_barFillColor :: "string option"
  c_barLayout :: "BarLayout option"
  c_barShowLabels :: "bool option"

text \<open>Step 1: the grid.\<close>

definition candleGrid :: "CandleDrawOptions \<Rightarrow> ctx \<Rightarrow> ctx" where
  "candleGrid opts c =
     (let reveal = c_chartReveal opts;
          gridAlpha = revealRamp reveal 0.25 0.6
      in if c_showGrid opts \<and> gridAlpha > 0.01
         then run (layer gridAlpha [Ext (DrawGrid (c_dt opts))]) c
         else c)"

text \<open>Steps 1b and 4b: the bars.\<close>

definition candleBarsOverlay ::
  "NumberFormat \<Rightarrow> ChartLayout \<Rightarrow> LivelinePalette \<Rightarrow> CandleDrawOptions \<Rightarrow> ctx \<Rightarrow> ctx" where
  "candleBarsOverlay nf layout palette opts c =
     (let reveal = c_chartReveal opts in
      case (c_bars opts, c_barLayout opts, c_barWidthSecs opts, c_barFillColor opts) of
        (Some bars, Some barLayout, Some barWidthSecs, Some barFillColor) \<Rightarrow>
          if barWidthSecs \<noteq> 0 \<and> c_barMode opts = Some Overlay \<and> barFillColor \<noteq> [] then
            (let barAlpha = (if reveal < 1 then revealRamp reveal 0.1 0.6 else 1) in
             if barAlpha > 0.01 then
               (let c1 = run ([Prim Save]
                              @ (if barAlpha < 1 then [Prim (SetGlobalAlpha barAlpha)] else [])) c;
                    c2 = drawBars nf layout barLayout
                           (barOptions palette bars barWidthSecs barFillColor (c_scrubAmount opts)
                              (c_hoverX opts) reveal (c_barShowLabels opts)) c1
                in run [Prim Restore] c2)
             else c)
          else c
      | _ \<Rightarrow> c)"

definition candleBarsDefault ::
  "NumberFormat \<Rightarrow> ChartLayout \<Rightarrow> LivelinePalette \<Rightarrow> CandleDrawOptions \<Rightarrow> ctx \<Rightarrow> ctx" where
  "candleBarsDefault nf layout palette opts c =
     (let reveal = c_chartReveal opts in
      case (c_bars opts, c_barLayout opts, c_barWidthSecs opts, c_barFillColor opts) of
        (Some bars, Some barLayout, Some barWidthSecs, Some barFillColor) \<Rightarrow>
          if barWidthSecs \<noteq> 0 \<and> c_barMode opts = Some Default \<and> barFillColor \<noteq> [] then
            (let barAlpha = (if reveal < 1 then revealRamp reveal 0.15 0.7 else 1) in
             if barAlpha > 0.01 then
               (let c1 = run ([Prim Save,
                               Prim BeginPath,
                               Prim (Rect (pad_left (pad layout))
                                       (bottom barLayout - maxHeight barLayout)
                                       (chartW layout) (maxHeight barLayout)),
                               Prim Clip]
                              @ (if barAlpha < 1 then [Prim (SetGlobalAlpha barAlpha)] else [])) c;
                    c2 = drawBars nf layout barLayout
                           (barOptions palette bars barWidthSecs barFillColor (c_scrubAmount opts)
                              (c_hoverX opts) reveal (c_barShowLabels opts)) c1
                in run [Prim Restore] c2)
             else c)
          else c
      | _ \<Rightarrow> c)"

text \<open>
  Step 2: the morph line. \<open>candleLineDrawn\<close> is the condition of the step; when it fails,
  \<open>linePts\<close> stays \<open>undefined\<close>.
\<close>

definition candleLineDrawn :: "CandleDrawOptions \<Rightarrow> bool" where
  "candleLineDrawn opts \<longleftrightarrow>
     lp (c_lineModeProg opts) (c_chartReveal opts) > 0.01 \<and> length (c_lineVisible opts) \<ge> 2"

definition candleLineArgs :: "LivelinePalette \<Rightarrow> CandleDrawOptions \<Rightarrow> DrawLineArgs" where
  "candleLineArgs palette opts =
     (let scrubX = (if c_scrubAmount opts > 0.05 then c_hoverX opts else None)
      in \<lparr> dl_palette = palette, dl_visible = c_lineVisible opts,
           dl_smoothValue = c_lineSmoothValue opts, dl_now = c_now opts,
           dl_showFill = (c_lineModeProg opts > 0.01), dl_scrubX = scrubX,
           dl_scrubAmount = c_scrubAmount opts, dl_reveal = c_chartReveal opts,
           dl_now_ms = c_now_ms opts,
           dl_colorBlend = Some (colorBlend (c_lineModeProg opts) (c_chartReveal opts)),
           dl_skipDash = Some (\<not> fullLineMode (c_lineModeProg opts)),
           dl_fillScale = Some (c_lineModeProg opts) \<rparr>)"

definition candleLine :: "LivelinePalette \<Rightarrow> CandleDrawOptions \<Rightarrow> ctx \<Rightarrow> ctx" where
  "candleLine palette opts c =
     (if candleLineDrawn opts then
        run [Prim Save,
             Prim (SetGlobalAlpha (lp (c_lineModeProg opts) (c_chartReveal opts))),
             Ext (DrawLine (candleLineArgs palette opts)),
             Prim Restore] c
      else c)"

text \<open>Step 3: the close price line, candle-coloured and accent-coloured.\<close>

definition candleClosePrice ::
  "ChartLayout \<Rightarrow> LivelinePalette \<Rightarrow> CandleDrawOptions \<Rightarrow> ctx \<Rightarrow> ctx" where
  "candleClosePrice layout palette opts c =
     (let reveal = c_chartReveal opts;
          lp = lp (c_lineModeProg opts) reveal;
          closeAlpha = revealRamp reveal 0.4 0.8;
          closeSource = (case c_closePriceCandle opts of
                           None \<Rightarrow> c_liveCandle opts
                         | Some cp \<Rightarrow> Some cp)
      in case closeSource of
           None \<Rightarrow> c
         | Some src \<Rightarrow>
             if closeAlpha > 0.01 then
               (let c1 = (if lp < 0.99
                          then run [Prim Save,
                                    Prim (SetGlobalAlpha (closeAlpha * (1 - lp))),
                                    Ext (DrawClosePrice src (c_scrubAmount opts) (c_liveBullBlend opts)),
                                    Prim Restore] c
                          else c)
                in if lp > 0.01 \<and> \<not> fullLineMode (c_lineModeProg opts) then
                     (let dashY = toY layout (close src) in
                      if dashY \<ge> pad_top (pad layout)
                         \<and> dashY \<le> layout_h layout - pad_bottom (pad layout)
                      then run [Prim Save,
                                Prim (SetLineDash [4, 4]),
                                Prim (SetStrokeStyle (dashLine palette)),
                                Prim (SetLineWidth 1),
                                Prim (SetGlobalAlpha
                                        (closeAlpha * lp * (1 - c_scrubAmount opts * 0.2))),
                                Prim BeginPath,
                                Prim (MoveTo (pad_left (pad layout)) dashY),
                                Prim (LineTo (layout_w layout - pad_right (pad layout)) dashY),
                                Prim Stroke,
                                Prim (SetLineDash []),
                                Prim Restore] c1
                      else c1)
                   else c1)
             else c)"

text \<open>Step 4: the candles.\<close>

definition candleAlpha :: "CandleDrawOptions \<Rightarrow> real" where
  "candleAlpha opts = c_chartReveal opts * (1 - lp (c_lineModeProg opts) (c_chartReveal opts))"

definition ohlcScale :: "real \<Rightarrow> real" where
  "ohlcScale reveal = reveal * reveal * (3 - 2 * reveal)"

definition candleBodies ::
  "ChartLayout \<Rightarrow> LivelinePalette \<Rightarrow> CandleDrawOptions \<Rightarrow> ctx \<Rightarrow> ctx" where
  "candleBodies layout palette opts c =
     (let reveal = c_chartReveal opts;
          lp = lp (c_lineModeProg opts) reveal;
          candleAlpha = candleAlpha opts
      in if candleAlpha > 0.01 then
           (let ohlcScale = ohlcScale reveal;
                revealCandles = (if ohlcScale < 0.99 then map (collapseC ohlcScale) (c_candles opts)
                                 else c_candles opts);
                revealOld = (if ohlcScale < 0.99 \<and> length (c_oldCandles opts) > 0
                             then map (collapseC ohlcScale) (c_oldCandles opts)
                             else c_oldCandles opts);
                accentCol = (if lp > 0.01 then Some (line palette) else None);
                liveTime = (case c_liveCandle opts of None \<Rightarrow> -1 | Some lc \<Rightarrow> time lc);
                hx = (case c_hoverX opts of None \<Rightarrow> 0 | Some x \<Rightarrow> x)
            in run ([Prim Save,
                     Prim BeginPath,
                     Prim (Rect (pad_left (pad layout) - 1) (pad_top (pad layout))
                             (chartW layout + 2) (chartH layout)),
                     Prim Clip]
                    @ (if c_morphT opts \<ge> 0 \<and> length revealOld > 0 then
                         [Prim (SetGlobalAlpha ((1 - c_morphT opts) * candleAlpha)),
                          Ext (DrawCandlesticks revealOld (c_oldWidth opts) (-1) (c_now_ms opts) hx
                                 (c_scrubAmount opts) 1 (-1) accentCol lp),
                          Prim (SetGlobalAlpha (c_morphT opts * candleAlpha)),
                          Ext (DrawCandlesticks revealCandles (c_displayCandleWidth opts) liveTime
                                 (c_now_ms opts) hx (c_scrubAmount opts) (c_liveBirthAlpha opts)
                                 (c_liveBullBlend opts) accentCol lp),
                          Prim (SetGlobalAlpha 1)]
                       else
                         (if candleAlpha < 1 then [Prim (SetGlobalAlpha candleAlpha)] else [])
                         @ [Ext (DrawCandlesticks revealCandles (c_displayCandleWidth opts) liveTime
                                   (c_now_ms opts) hx (c_scrubAmount opts) (c_liveBirthAlpha opts)
                                   (c_liveBullBlend opts) accentCol lp)])
                    @ [Prim Restore]) c)
         else c)"

text \<open>Step 5: the live dot, at the last point that the line of step 2 returned.\<close>

definition candleDot ::
  "(real \<times> real) list option \<Rightarrow> CandleDrawOptions \<Rightarrow> ctx \<Rightarrow> ctx" where
  "candleDot ptsOfStep2 opts c =
     (let reveal = c_chartReveal opts;
          lp = lp (c_lineModeProg opts) reveal
      in case ptsOfStep2 of
           None \<Rightarrow> c
         | Some pts \<Rightarrow>
             if lp > 0.5 \<and> length pts > 0 \<and> reveal > 0.3 then
               (let lastPt = last pts;
                    dotAlpha = ((lp - 0.5) * 2) * ((reveal - 0.3) / 0.7);
                    showPulse = (lp > 0.8 \<and> reveal > 0.6)
                in if dotAlpha > 0.01
                   then run [Prim Save,
                             Prim (SetGlobalAlpha dotAlpha),
                             Ext (DrawDot (fst lastPt) (snd lastPt) showPulse (c_scrubAmount opts)
                                    (c_now_ms opts)),
                             Prim Restore] c
                   else c)
             else c)"

text \<open>Step 6: the time axis.\<close>

definition candleTimeAxis :: "CandleDrawOptions \<Rightarrow> ctx \<Rightarrow> ctx" where
  "candleTimeAxis opts c =
     (let reveal = c_chartReveal opts;
          timeAlpha = revealRamp reveal 0.25 0.6
      in if timeAlpha > 0.01
         then run (layer timeAlpha
                     [Ext (DrawTimeAxis (c_targetWindowSecs opts) (c_targetWindowSecs opts)
                             (c_dt opts))]) c
         else c)"

text \<open>Step 8: the empty overlay of the reverse morph.\<close>

definition candleEmpty :: "ChartLayout \<Rightarrow> CandleDrawOptions \<Rightarrow> ctx \<Rightarrow> ctx" where
  "candleEmpty layout opts c =
     (if c_showEmptyOverlay opts then
        (let bgAlpha = 1 - c_chartReveal opts in
         if bgAlpha > 0.01 then
           (let bgEmptyAlpha = (1 - c_loadingAlpha opts) * bgAlpha in
            if bgEmptyAlpha > 0.01
            then run [Ext (DrawEmpty (layout_w layout) (layout_h layout) bgEmptyAlpha
                             (c_now_ms opts) True (c_emptyText opts))] c
            else c)
         else c)
      else c)"

text \<open>Step 9: the crosshair, in its line-mode or its candle variant.\<close>

definition candleCrosshair :: "CandleDrawOptions \<Rightarrow> ctx \<Rightarrow> ctx" where
  "candleCrosshair opts c =
     (case (c_hoveredCandle opts, c_hoverX opts) of
        (Some hoveredCandle, Some hoverX) \<Rightarrow>
          if c_chartReveal opts > 0.7 \<and> c_scrubAmount opts > 0.01 then
            (let hoverTime = (case c_hoverTime opts of None \<Rightarrow> 0 | Some t \<Rightarrow> t) in
             if c_lineModeProg opts > 0.5
             then run [Ext (DrawLineModeCrosshair hoverX (close hoveredCandle) hoverTime
                              (c_scrubAmount opts))] c
             else run [Ext (DrawCandleCrosshair hoverX hoveredCandle hoverTime
                              (c_scrubAmount opts))] c)
          else c
      | _ \<Rightarrow> c)"

text \<open>
  \<open>drawCandleFrame\<close>; \<open>ptsOfLine\<close> is what \<open>drawLine\<close> returns when step 2 calls it, and
  \<open>pts\<close> is the local \<open>linePts\<close>.
\<close>

definition drawCandleFrame ::
  "(real \<times> real) list option \<Rightarrow> NumberFormat \<Rightarrow> ctx \<Rightarrow> ChartLayout \<Rightarrow> LivelinePalette
     \<Rightarrow> CandleDrawOptions \<Rightarrow> ctx" where
  "drawCandleFrame ptsOfLine nf ctx layout palette opts =
     (let c1 = candleGrid opts ctx;
          c1b = candleBarsOverlay nf layout palette opts c1;
          c2 = candleLine palette opts c1b;
          pts = (if candleLineDrawn opts then ptsOfLine else None);
          c3 = candleClosePrice layout palette opts c2;
          c4 = candleBodies layout palette opts c3;
          c4b = candleBarsDefault nf layout palette opts c4;
          c5 = candleDot pts opts c4b;
          c6 = candleTimeAxis opts c5;
          c7 = run (leftEdgeFade layout) c6;
          c8 = candleEmpty layout opts c7
      in candleCrosshair opts c8)"

subsection \<open>Reading the log\<close>

text \<open>The calls made on a context so far, oldest first.\<close>

definition trace :: "ctx \<Rightarrow> call list" where
  "trace c = map the_call (calls c)"

text \<open>
  \<open>extends P c c'\<close>: the context \<open>c'\<close> has the calls of \<open>c\<close> and then further calls, all of
  which satisfy \<open>P\<close>.
\<close>

definition extends :: "(call \<Rightarrow> bool) \<Rightarrow> ctx \<Rightarrow> ctx \<Rightarrow> bool" where
  "extends P c c' \<longleftrightarrow> (\<exists>ls. calls c' = calls c @ ls \<and> (\<forall>l\<in>set ls. P (the_call l)))"

text \<open>Which module or operation a call is.\<close>

fun isDrawLine :: "call \<Rightarrow> bool" where
  "isDrawLine (Ext (DrawLine args)) = True"
| "isDrawLine _ = False"

text \<open>The calls of \<open>drawLine\<close> among logged calls, each with the alpha it is drawn at.\<close>

fun lineOf :: "logged \<Rightarrow> (real \<times> DrawLineArgs) list" where
  "lineOf (Logged a t (Ext (DrawLine args))) = [(a, args)]"
| "lineOf _ = []"

definition drawnLines :: "ctx \<Rightarrow> ctx \<Rightarrow> (real \<times> DrawLineArgs) list" where
  "drawnLines before after = concat (map lineOf (drop (length (calls before)) (calls after)))"

fun isDrawGrid :: "call \<Rightarrow> bool" where
  "isDrawGrid (Ext (DrawGrid d)) = True"
| "isDrawGrid _ = False"

fun isDrawDot :: "call \<Rightarrow> bool" where
  "isDrawDot (Ext (DrawDot x y p s n)) = True"
| "isDrawDot _ = False"

fun isDrawCandlesticks :: "call \<Rightarrow> bool" where
  "isDrawCandlesticks (Ext (DrawCandlesticks cs w lt n hx s ba bb ac l)) = True"
| "isDrawCandlesticks _ = False"

fun isDrawCrosshair :: "call \<Rightarrow> bool" where
  "isDrawCrosshair (Ext (DrawCrosshair hx hv ht s lx)) = True"
| "isDrawCrosshair _ = False"

fun isDrawEmpty :: "call \<Rightarrow> bool" where
  "isDrawEmpty (Ext (DrawEmpty w h a n b t)) = True"
| "isDrawEmpty _ = False"

fun isTranslate :: "call \<Rightarrow> bool" where
  "isTranslate (Prim (Translate x y)) = True"
| "isTranslate _ = False"

fun isDrawLineModeCrosshair :: "call \<Rightarrow> bool" where
  "isDrawLineModeCrosshair (Ext (DrawLineModeCrosshair hx v ht s)) = True"
| "isDrawLineModeCrosshair _ = False"

fun isDrawCandleCrosshair :: "call \<Rightarrow> bool" where
  "isDrawCandleCrosshair (Ext (DrawCandleCrosshair hx hc ht s)) = True"
| "isDrawCandleCrosshair _ = False"

text \<open>A call that is neither a candle body nor a crosshair of the candle composer.\<close>

definition plainLayer :: "call \<Rightarrow> bool" where
  "plainLayer k \<longleftrightarrow>
     \<not> isDrawCandlesticks k \<and> \<not> isDrawCandleCrosshair k \<and> \<not> isDrawLineModeCrosshair k"

text \<open>
  The depth of the \<open>save\<close> stack after a list of calls, from the depth before: \<open>save\<close>
  pushes, \<open>restore\<close> pops unless the stack is empty.
\<close>

fun depthAfter :: "call list \<Rightarrow> nat \<Rightarrow> nat" where
  "depthAfter [] n = n"
| "depthAfter (k # ks) n =
     depthAfter ks (if k = Prim Save then Suc n else if k = Prim Restore then n - 1 else n)"

text \<open>The calls that draw a bar: the rectangle, or the calls of the rounded path.\<close>

fun isBarShape :: "call \<Rightarrow> bool" where
  "isBarShape (Prim (FillRect x y w h)) = True"
| "isBarShape (Prim BeginPath) = True"
| "isBarShape (Prim (MoveTo x y)) = True"
| "isBarShape (Prim (LineTo x y)) = True"
| "isBarShape (Prim (ArcTo x1 y1 x2 y2 r)) = True"
| "isBarShape (Prim ClosePath) = True"
| "isBarShape (Prim Fill) = True"
| "isBarShape _ = False"


subsection \<open>Derived forms used in the proofs\<close>

text \<open>
  \<open>drawBars\<close> as the list of calls it makes, given the alpha of the context on entry:
  \<open>barsBody\<close> for given bar width, corner radius and font size, \<open>barsCalls\<close> behind the
  guard. \<open>drawBars_run\<close> below proves that \<open>drawBars\<close> runs exactly this list.
\<close>

definition barsBody ::
  "NumberFormat \<Rightarrow> ChartLayout \<Rightarrow> BarLayout \<Rightarrow> BarDrawOptions \<Rightarrow> real \<Rightarrow> real \<Rightarrow> real \<Rightarrow> real
     \<Rightarrow> call list" where
  "barsBody nf layout barLayout opts barPxWidth cornerR fontSize baseAlpha =
     [Prim (SetFillStyle (b_fillColor opts))]
     @ concat (map (drawBar layout barLayout opts barPxWidth (barPxWidth / 2) cornerR baseAlpha)
                   (b_bars opts))
     @ (if b_showLabels opts \<and> b_revealProgress opts > 0.5 then
          [Prim Save,
           Prim (SetFont (if layout_w layout > 500
                          then ''9px \"SF Mono\", Menlo, monospace''
                          else ''8px \"SF Mono\", Menlo, monospace'')),
           Prim (SetTextAlign ''center''),
           Prim (SetTextBaseline ''bottom''),
           Prim (SetFillStyle (b_labelColor opts)),
           Prim (SetGlobalAlpha (baseAlpha * min 1 ((b_revealProgress opts - 0.5) * 4)))]
          @ concat (map (drawBarLabel nf layout barLayout opts fontSize) (b_bars opts))
          @ [Prim Restore]
        else [])
     @ [Prim (SetGlobalAlpha baseAlpha)]"

definition barsCalls ::
  "NumberFormat \<Rightarrow> ChartLayout \<Rightarrow> BarLayout \<Rightarrow> BarDrawOptions \<Rightarrow> real \<Rightarrow> call list" where
  "barsCalls nf layout barLayout opts baseAlpha =
     (if b_bars opts = [] \<or> maxValue barLayout \<le> 0 then []
      else
        let pxPerSec = chartW layout / (rightEdge layout - leftEdge layout);
            barPxWidth = max 1 (b_barWidthSecs opts * pxPerSec - 2)
        in barsBody nf layout barLayout opts barPxWidth (if barPxWidth > 6 then 1.5 else 0)
             (if layout_w layout > 500 then 9 else 8) baseAlpha)"

text \<open>The bar height in the words of the specification.\<close>

definition barHeight :: "BarLayout \<Rightarrow> BarDrawOptions \<Rightarrow> BarPoint \<Rightarrow> real" where
  "barHeight barLayout opts b =
     (bar_value b / maxValue barLayout) * maxHeight barLayout * b_revealProgress opts"

text \<open>
  The pixel width of a bar and the x of its left edge, as \<open>drawBars\<close> computes them: the
  bucket width in pixels less a gap of 2, at least 1, centred on \<open>time + width / 2\<close>.
\<close>

definition barWidthPx :: "ChartLayout \<Rightarrow> BarDrawOptions \<Rightarrow> real" where
  "barWidthPx layout opts =
     max 1 (b_barWidthSecs opts * (chartW layout / (rightEdge layout - leftEdge layout)) - 2)"

definition barLeft :: "ChartLayout \<Rightarrow> BarDrawOptions \<Rightarrow> BarPoint \<Rightarrow> real" where
  "barLeft layout opts b =
     toX layout (bar_time b + b_barWidthSecs opts / 2) - barWidthPx layout opts / 2"






text \<open>The crosshair call of the candle composer in line mode, when it is made.\<close>

definition lineModeCrosshairCalls :: "CandleDrawOptions \<Rightarrow> call list" where
  "lineModeCrosshairCalls opts =
     (if c_chartReveal opts > 0.7 \<and> c_hoveredCandle opts \<noteq> None \<and> c_hoverX opts \<noteq> None
         \<and> c_scrubAmount opts > 0.01
      then [Ext (DrawLineModeCrosshair (the (c_hoverX opts)) (close (the (c_hoveredCandle opts)))
                   (case c_hoverTime opts of None \<Rightarrow> 0 | Some t \<Rightarrow> t) (c_scrubAmount opts))]
      else [])"

text \<open>The layers of \<open>drawFrame\<close> between the shake offset and its restore.\<close>

definition frameLayers ::
  "FrameEnv \<Rightarrow> NumberFormat \<Rightarrow> ChartLayout \<Rightarrow> LivelinePalette \<Rightarrow> DrawOptions \<Rightarrow> ctx \<Rightarrow> ctx" where
  "frameLayers env nf layout palette opts c0 =
     (let shake = map_option (decayShake (o_dt opts)) (o_shakeState opts);
          c1 = frameReferenceLine opts c0;
          c2 = frameGrid opts c1;
          c2b = frameOrderbook opts c2;
          c2c = frameBarsOverlay nf layout palette opts c2b;
          c3 = frameLine palette opts c2c;
          c4 = frameTimeAxis opts c3;
          c6 = (case linePts env of
                  None \<Rightarrow> c4
                | Some ps \<Rightarrow>
                    if length ps > 0 then
                      (let lastPt = last ps;
                           c5 = frameDot layout opts lastPt c4;
                           c5b = frameArrows opts lastPt c5
                       in fst (frameParticles env palette opts lastPt (c5b, shake)))
                    else c4);
          c6b = frameBarsDefault nf layout palette opts c6;
          c7 = run (leftEdgeFade layout) c6b
      in frameCrosshair env layout opts c7)"

subsection \<open>Concrete inputs\<close>

text \<open>
  Inputs at which the theorems below are evaluated. \<open>ex_env\<close> has both random draws at
  \<open>1/2\<close>; \<open>ex_hiddenOpts\<close> and \<open>ex_hiddenCandleOpts\<close> have \<open>chartReveal = 0\<close>;
  \<open>ex_shakeOpts\<close> is fully revealed with an armed shake; \<open>ex_lineModeOpts\<close> is the candle
  composer in line mode with a hovered candle and no hover position; \<open>ex_hoverOpts\<close> and
  \<open>ex_multiHoverOpts\<close> hover at x 100 with \<open>scrubAmount = 1\<close>; \<open>ex_ptsOfSpread\<close> ends the
  line of the series \<open>si\<close> at x \<open>140 + 10 * si\<close>; \<open>ex_leftOpts\<close> and \<open>ex_ptsOfLeft\<close> are one
  series that ends at x \<open>-20\<close>, left of the canvas, with the hover at \<open>-30\<close>.
\<close>

definition ex_layout :: ChartLayout where
  "ex_layout = \<lparr> layout_w = 400, layout_h = 200,
       pad = \<lparr> pad_top = 10, pad_right = 10, pad_bottom = 20, pad_left = 10 \<rparr>,
       chartW = 380, chartH = 170, leftEdge = 0, rightEdge = 38,
       toX = (\<lambda>t. 10 + 10 * t), toY = (\<lambda>v. 180 - v) \<rparr>"

definition ex_nf :: NumberFormat where
  "ex_nf = \<lparr> toFixed = (\<lambda>d v. ''#''), roundToString = (\<lambda>v. ''#'') \<rparr>"

definition ex_palette :: LivelinePalette where
  "ex_palette = \<lparr> line = ''red'', gridLabel = ''grey'', dashLine = ''grey'' \<rparr>"

definition ex_barLayout :: BarLayout where
  "ex_barLayout = \<lparr> bottom = 180, maxHeight = 40, maxValue = 10 \<rparr>"

definition ex_barOpts :: BarDrawOptions where
  "ex_barOpts = \<lparr> b_bars = [\<lparr> bar_time = 2, bar_value = 5 \<rparr>, \<lparr> bar_time = 3, bar_value = 1 \<rparr>],
       b_barWidthSecs = 1, b_fillColor = ''grey'', b_labelColor = ''black'',
       b_scrubX = None, b_scrubAmount = 0, b_revealProgress = 0.5, b_showLabels = False \<rparr>"

definition ex_series :: "real option \<Rightarrow> MultiSeriesEntry" where
  "ex_series a = \<lparr> s_visible = [\<lparr> pt_time = 1, pt_value = 5 \<rparr>, \<lparr> pt_time = 2, pt_value = 6 \<rparr>],
       s_smoothValue = 6, s_palette = ex_palette, s_label = None, s_alpha = a \<rparr>"

definition ex_multiOpts :: MultiSeriesDrawOptions where
  "ex_multiOpts = \<lparr> m_series = [ex_series None, ex_series (Some 0.5), ex_series (Some 0.04)],
       m_now = 2, m_showGrid = True, m_showPulse = False, m_referenceLine = None,
       m_hoverX = None, m_hoverTime = None, m_hoverEntries = [], m_scrubAmount = 0,
       m_windowSecs = 30, m_dt = 16, m_targetWindowSecs = 30, m_chartReveal = 0.1,
       m_pauseProgress = 0, m_now_ms = 2000, m_primaryPalette = ex_palette \<rparr>"

definition ex_ptsOf :: "nat \<Rightarrow> (real \<times> real) list option" where
  "ex_ptsOf si = Some [(20, 90), (150, 60 + real si)]"

definition ex_env :: FrameEnv where
  "ex_env = \<lparr> rand1 = 0.5, rand2 = 0.5, linePts = Some [(20, 90), (150, 60)], burstIntensity = 0 \<rparr>"

definition ex_hiddenOpts :: DrawOptions where
  "ex_hiddenOpts = \<lparr> o_visible = [\<lparr> pt_time = 1, pt_value = 5 \<rparr>, \<lparr> pt_time = 2, pt_value = 6 \<rparr>],
       o_smoothValue = 6, o_now = 2, o_showGrid = True, o_showMomentum = True, o_showPulse = True,
       o_showFill = True, o_referenceLine = None, o_hoverX = None, o_hoverValue = None,
       o_hoverTime = None, o_scrubAmount = 0, o_windowSecs = 30, o_dt = 16,
       o_targetWindowSecs = 30, o_orderbookData = None, o_orderbookState = None,
       o_particleState = None, o_swingMagnitude = 0, o_shakeState = None, o_chartReveal = 0,
       o_pauseProgress = 0, o_now_ms = 2000, o_bars = None, o_barWidthSecs = None,
       o_barMode = None, o_barFillColor = None, o_barLayout = None, o_barShowLabels = None \<rparr>"

definition ex_shakeOpts :: DrawOptions where
  "ex_shakeOpts = ex_hiddenOpts \<lparr> o_shakeState := Some \<lparr> amplitude = 1 \<rparr>, o_chartReveal := 1 \<rparr>"

definition ex_candle :: CandlePoint where
  "ex_candle = \<lparr> time = 7, open' = 10, high = 14, low = 8, close = 12 \<rparr>"

definition ex_hiddenCandleOpts :: CandleDrawOptions where
  "ex_hiddenCandleOpts = \<lparr> c_candles = [ex_candle], c_displayCandleWidth = 5, c_oldCandles = [],
       c_oldWidth = 5, c_morphT = -1, c_liveCandle = Some ex_candle, c_closePriceCandle = None,
       c_liveTime = 7, c_liveBirthAlpha = 1, c_liveBullBlend = 1, c_lineModeProg = 0,
       c_chartReveal = 0, c_now_ms = 2000, c_now = 2, c_pauseProgress = 0, c_showGrid = True,
       c_scrubAmount = 0, c_hoverX = None, c_hoverValue = None, c_hoverTime = None,
       c_hoveredCandle = None, c_dt = 16, c_targetWindowSecs = 30,
       c_lineVisible = [\<lparr> pt_time = 1, pt_value = 5 \<rparr>, \<lparr> pt_time = 2, pt_value = 6 \<rparr>],
       c_lineSmoothValue = 6, c_emptyText = None, c_loadingAlpha = 1, c_showEmptyOverlay = False,
       c_bars = None, c_barWidthSecs = None, c_barMode = None, c_barFillColor = None,
       c_barLayout = None, c_barShowLabels = None \<rparr>"

definition ex_lineModeOpts :: CandleDrawOptions where
  "ex_lineModeOpts = ex_hiddenCandleOpts \<lparr> c_lineModeProg := 1, c_chartReveal := 1,
       c_scrubAmount := 1, c_hoveredCandle := Some ex_candle, c_hoverX := None \<rparr>"







section \<open>Properties\<close>

subsection \<open>The smoothstep ramp\<close>

lemma smoothstep_mono:
  fixes a b :: real
  assumes "0 \<le> a" "a \<le> b" "b \<le> 1"
  shows "a * a * (3 - 2 * a) \<le> b * b * (3 - 2 * b)"
proof -
  have "b * b * (3 - 2 * b) - a * a * (3 - 2 * a)
        = (b - a) * (a * (3 - 2 * a - b) + b * (3 - 2 * b - a))"
    by (simp add: algebra_simps)
  moreover have "0 \<le> a * (3 - 2 * a - b)"
    using assms by (intro mult_nonneg_nonneg) auto
  moreover have "0 \<le> b * (3 - 2 * b - a)"
    using assms by (intro mult_nonneg_nonneg) auto
  moreover have "0 \<le> b - a"
    using assms by simp
  ultimately have "0 \<le> b * b * (3 - 2 * b) - a * a * (3 - 2 * a)"
    by (simp add: mult_nonneg_nonneg)
  then show ?thesis by simp
qed

lemma ramp_clamp_mono:
  fixes p q s e :: real
  assumes "s < e" "p \<le> q"
  shows "max 0 (min 1 ((p - s) / (e - s))) \<le> max 0 (min 1 ((q - s) / (e - s)))"
proof -
  have "(p - s) / (e - s) \<le> (q - s) / (e - s)"
    using assms by (simp add: divide_right_mono)
  then show ?thesis by (simp add: max_def min_def)
qed

lemma revealRamp_cont:
  fixes s e :: real
  shows "isCont (\<lambda>p. revealRamp p s e) x"
proof -
  define k where "k = inverse (e - s)"
  have "isCont (\<lambda>p. max 0 (min 1 ((p - s) * k)) * max 0 (min 1 ((p - s) * k))
                  * (3 - 2 * max 0 (min 1 ((p - s) * k)))) x"
    by (intro continuous_intros)
  then show ?thesis
    by (simp add: revealRamp_def Let_def k_def divide_inverse)
qed

lemma revealRamp_mono:
  assumes "start < end'" "p \<le> q"
  shows "revealRamp p start end' \<le> revealRamp q start end'"
proof -
  have "max 0 (min 1 ((p - start) / (end' - start)))
        \<le> max 0 (min 1 ((q - start) / (end' - start)))"
    using assms by (rule ramp_clamp_mono)
  then show ?thesis
    unfolding revealRamp_def Let_def
    by (intro smoothstep_mono) auto
qed

lemma revealRamp_before:
  assumes "start < end'" "p \<le> start"
  shows "revealRamp p start end' = 0"
proof -
  have "(p - start) / (end' - start) \<le> 0"
    using assms by (simp add: divide_le_0_iff)
  then show ?thesis by (simp add: revealRamp_def Let_def max_def min_def)
qed

lemma revealRamp_after:
  assumes "start < end'" "end' \<le> p"
  shows "revealRamp p start end' = 1"
proof -
  have "1 \<le> (p - start) / (end' - start)"
    using assms by (simp add: le_divide_eq)
  then show ?thesis by (simp add: revealRamp_def Let_def max_def min_def)
qed

lemma revealRamp_range: "0 \<le> revealRamp p start end' \<and> revealRamp p start end' \<le> 1"
proof -
  have "0 \<le> max 0 (min 1 ((p - start) / (end' - start)))"
       "max 0 (min 1 ((p - start) / (end' - start))) \<le> 1"
    by auto
  from smoothstep_mono[OF order_refl this(1)] smoothstep_mono[OF this order_refl]
  show ?thesis
    by (simp add: revealRamp_def Let_def)
qed

lemma isCont_both_sides:
  fixes f :: "real \<Rightarrow> real"
  assumes "isCont f a"
  shows "(f \<longlongrightarrow> f a) (at_left a) \<and> (f \<longlongrightarrow> f a) (at_right a)"
  using assms by (simp add: isCont_def filterlim_at_split)

lemma revealRamp_limits:
  assumes "start < end'"
  shows "((\<lambda>p. revealRamp p start end') \<longlongrightarrow> 0) (at_left start)"
    "((\<lambda>p. revealRamp p start end') \<longlongrightarrow> 0) (at_right start)"
    "((\<lambda>p. revealRamp p start end') \<longlongrightarrow> 1) (at_left end')"
    "((\<lambda>p. revealRamp p start end') \<longlongrightarrow> 1) (at_right end')"
  using isCont_both_sides[OF revealRamp_cont[where s = start and e = end' and x = start]]
    isCont_both_sides[OF revealRamp_cont[where s = start and e = end' and x = end']]
    revealRamp_before[OF assms order_refl] revealRamp_after[OF assms order_refl]
  by simp_all

text \<open>
  Claim C5. \<open>revealRamp\<close> clamps \<open>(progress - start) / (end - start)\<close> to \<open>[0,1]\<close> and applies
  \<open>t\<^sup>2 (3 - 2t)\<close>. For \<open>start < end\<close> it is monotonically non-decreasing in the
  progress, it is 0 at and before \<open>start\<close>, 1 at and after \<open>end\<close>, and it is continuous at
  \<open>start\<close> and at \<open>end\<close>: its limit from the left and from the right is 0 at \<open>start\<close> and 1
  at \<open>end\<close>. The progress ranges over all reals, \<open>[0,1]\<close> included.
\<close>

theorem revealRamp_smoothstep:
  assumes "start < end'"
  shows "revealRamp p start end' =
           (max 0 (min 1 ((p - start) / (end' - start))))\<^sup>2
             * (3 - 2 * max 0 (min 1 ((p - start) / (end' - start))))
         \<and> (p \<le> q \<longrightarrow> revealRamp p start end' \<le> revealRamp q start end')
         \<and> (p \<le> start \<longrightarrow> revealRamp p start end' = 0)
         \<and> (end' \<le> p \<longrightarrow> revealRamp p start end' = 1)
         \<and> isCont (\<lambda>x. revealRamp x start end') start
         \<and> isCont (\<lambda>x. revealRamp x start end') end'
         \<and> ((\<lambda>x. revealRamp x start end') \<longlongrightarrow> 0) (at_left start)
         \<and> ((\<lambda>x. revealRamp x start end') \<longlongrightarrow> 0) (at_right start)
         \<and> ((\<lambda>x. revealRamp x start end') \<longlongrightarrow> 1) (at_left end')
         \<and> ((\<lambda>x. revealRamp x start end') \<longlongrightarrow> 1) (at_right end')
         \<and> 0 \<le> revealRamp p start end' \<and> revealRamp p start end' \<le> 1"
proof (intro conjI impI)
  show "((\<lambda>x. revealRamp x start end') \<longlongrightarrow> 0) (at_left start)"
    "((\<lambda>x. revealRamp x start end') \<longlongrightarrow> 0) (at_right start)"
    "((\<lambda>x. revealRamp x start end') \<longlongrightarrow> 1) (at_left end')"
    "((\<lambda>x. revealRamp x start end') \<longlongrightarrow> 1) (at_right end')"
    using assms by (rule revealRamp_limits)+
  show "revealRamp p start end' =
           (max 0 (min 1 ((p - start) / (end' - start))))\<^sup>2
             * (3 - 2 * max 0 (min 1 ((p - start) / (end' - start))))"
    by (simp add: revealRamp_def Let_def power2_eq_square)
  show "revealRamp p start end' \<le> revealRamp q start end'" if "p \<le> q"
    using assms that by (rule revealRamp_mono)
  show "revealRamp p start end' = 0" if "p \<le> start"
    using assms that by (rule revealRamp_before)
  show "revealRamp p start end' = 1" if "end' \<le> p"
    using assms that by (rule revealRamp_after)
  show "isCont (\<lambda>x. revealRamp x start end') start"
    by (rule revealRamp_cont)
  show "isCont (\<lambda>x. revealRamp x start end') end'"
    by (rule revealRamp_cont)
  show "0 \<le> revealRamp p start end'" "revealRamp p start end' \<le> 1"
    using revealRamp_range[of p start end'] by simp_all
qed

theorem revealRamp_smoothstep_witness:
  "(0.15::real) < 0.7
   \<and> revealRamp 0.3 0.15 0.7 \<le> revealRamp 0.5 0.15 0.7
   \<and> revealRamp 0.1 0.15 0.7 = 0
   \<and> revealRamp 0.9 0.15 0.7 = 1
   \<and> isCont (\<lambda>x. revealRamp x 0.15 0.7) 0.15
   \<and> isCont (\<lambda>x. revealRamp x 0.15 0.7) 0.7"
  using revealRamp_smoothstep[of "0.15" "0.7" "0.3" "0.5"]
    revealRamp_smoothstep[of "0.15" "0.7" "0.1" "0.1"]
    revealRamp_smoothstep[of "0.15" "0.7" "0.9" "0.9"]
  by simp

subsection \<open>Shake decay\<close>

lemma decayShake_eq: "decayShake dt s = s\<lparr> amplitude := snapAmplitude (amplitude s * SHAKE_DECAY_RATE powr (dt / 1000)) \<rparr>"
  by (simp add: decayShake_def Let_def snapAmplitude_def)

lemma rate_le_one: "0 \<le> t \<Longrightarrow> SHAKE_DECAY_RATE powr t \<le> 1"
  by (simp add: SHAKE_DECAY_RATE_def powr_le1)

lemma snapAmplitude_twice:
  assumes "0 \<le> t"
  shows "snapAmplitude (snapAmplitude (a * SHAKE_DECAY_RATE powr u) * SHAKE_DECAY_RATE powr t)
         = snapAmplitude (a * SHAKE_DECAY_RATE powr (u + t))"
proof (cases "a * SHAKE_DECAY_RATE powr u < SHAKE_MIN_AMPLITUDE")
  case True
  have "a * SHAKE_DECAY_RATE powr u * SHAKE_DECAY_RATE powr t < SHAKE_MIN_AMPLITUDE"
  proof (cases "0 \<le> a * SHAKE_DECAY_RATE powr u")
    case nonneg: True
    have "a * SHAKE_DECAY_RATE powr u * SHAKE_DECAY_RATE powr t \<le> a * SHAKE_DECAY_RATE powr u * 1"
      using nonneg rate_le_one[OF assms] by (intro mult_left_mono) auto
    with True show ?thesis by simp
  next
    case False
    then have "a * SHAKE_DECAY_RATE powr u * SHAKE_DECAY_RATE powr t \<le> 0"
      by (simp add: mult_nonpos_nonneg)
    then show ?thesis by (simp add: SHAKE_MIN_AMPLITUDE_def)
  qed
  with True show ?thesis
    by (simp add: snapAmplitude_def powr_add SHAKE_MIN_AMPLITUDE_def mult.assoc)
next
  case False
  then show ?thesis
    by (simp add: snapAmplitude_def powr_add mult.assoc)
qed

lemma decayTicks_closed:
  assumes "\<forall>dt\<in>set dts. 0 < dt"
  shows "decayTicks s dts =
     (if dts = [] then s
      else s\<lparr> amplitude := snapAmplitude (amplitude s * SHAKE_DECAY_RATE powr (sum_list dts / 1000)) \<rparr>)"
  using assms
proof (induction dts arbitrary: s)
  case Nil
  then show ?case by simp
next
  case (Cons d ds)
  then have pos: "\<forall>dt\<in>set ds. 0 < dt" by simp
  then have nonneg: "0 \<le> sum_list ds / 1000"
    by (simp add: sum_list_nonneg less_imp_le)
  show ?case
  proof (cases "ds = []")
    case True
    then show ?thesis by (simp add: decayShake_eq)
  next
    case False
    then show ?thesis
      using Cons.IH[OF pos, of "decayShake d s"] snapAmplitude_twice[OF nonneg, of "amplitude s" "d / 1000"]
      by (simp add: decayShake_eq add_divide_distrib)
  qed
qed

lemma sum_list_pos_nonempty:
  fixes dts :: "real list"
  assumes "\<forall>dt\<in>set dts. 0 < dt" "dts \<noteq> []"
  shows "0 < sum_list dts"
  using assms by (induction dts) (auto intro: add_pos_nonneg sum_list_nonneg less_imp_le)

text \<open>
  Claim C2. Over the reals, for every initial amplitude and every two finite sequences of
  positive tick deltas with the same sum, one decay per tick leaves the same amplitude.
\<close>

theorem shake_decay_time_proportional:
  assumes "\<forall>dt\<in>set dts1. 0 < dt" "\<forall>dt\<in>set dts2. 0 < dt" "sum_list dts1 = sum_list dts2"
  shows "decayTicks shake dts1 = decayTicks shake dts2"
proof -
  have "dts1 = [] \<longleftrightarrow> dts2 = []"
    using sum_list_pos_nonempty[OF assms(1)] sum_list_pos_nonempty[OF assms(2)] assms(3)
    by fastforce
  then show ?thesis
    using decayTicks_closed[OF assms(1), of shake] decayTicks_closed[OF assms(2), of shake] assms(3)
    by simp
qed

theorem shake_decay_time_proportional_witness:
  "sum_list [50, 30, 20 :: real] = sum_list [100]
   \<and> decayTicks \<lparr> amplitude = 10 \<rparr> [50, 30, 20] = decayTicks \<lparr> amplitude = 10 \<rparr> [100]"
  using shake_decay_time_proportional[of "[50, 30, 20]" "[100]" "\<lparr> amplitude = 10 \<rparr>"]
  by simp

subsection \<open>The OHLC collapse\<close>

text \<open>
  Claim C10. For every \<open>ohlcScale\<close> in \<open>[0,1]\<close>, \<open>collapseC\<close> keeps the ordering invariant
  \<open>low \<le> min(open, close) \<le> max(open, close) \<le> high\<close> of a candle, and leaves its close
  and its time as they are.
\<close>

theorem collapseC_preserves_order:
  assumes "0 \<le> scale" "scale \<le> 1" "candle_ordered c"
  shows "candle_ordered (collapseC scale c)
         \<and> close (collapseC scale c) = close c
         \<and> time (collapseC scale c) = time c"
proof (cases "scale \<ge> 0.99")
  case True
  then show ?thesis using assms by (simp add: collapseC_def)
next
  case False
  have lo: "low c \<le> open' c" "low c \<le> close c" and hi: "open' c \<le> high c" "close c \<le> high c"
    using assms(3) by (auto simp: candle_ordered_def)
  have 1: "(low c - close c) * scale \<le> 0"
    using lo assms(1) by (simp add: mult_nonpos_nonneg)
  have 2: "(low c - close c) * scale \<le> (open' c - close c) * scale"
    using lo assms(1) by (intro mult_right_mono) auto
  have 3: "0 \<le> (high c - close c) * scale"
    using hi assms(1) by simp
  have 4: "(open' c - close c) * scale \<le> (high c - close c) * scale"
    using hi assms(1) by (intro mult_right_mono) auto
  show ?thesis
    using False 1 2 3 4 by (simp add: collapseC_def candle_ordered_def)
qed

theorem collapseC_preserves_order_witness:
  "(0::real) \<le> 0.5 \<and> (0.5::real) \<le> 1
   \<and> candle_ordered \<lparr> time = 7, open' = 10, high = 14, low = 8, close = 12 \<rparr>
   \<and> candle_ordered (collapseC 0.5 \<lparr> time = 7, open' = 10, high = 14, low = 8, close = 12 \<rparr>)
   \<and> collapseC 0.5 \<lparr> time = 7, open' = 10, high = 14, low = 8, close = 12 \<rparr>
       = \<lparr> time = 7, open' = 11, high = 13, low = 10, close = 12 \<rparr>"
proof -
  have h: "candle_ordered \<lparr> time = 7, open' = 10, high = 14, low = 8, close = 12 \<rparr>"
    by (simp add: candle_ordered_def)
  show ?thesis
    using h collapseC_preserves_order[of "0.5" "\<lparr> time = 7, open' = 10, high = 14, low = 8, close = 12 \<rparr>"]
    by (simp add: collapseC_def)
qed

subsection \<open>The colour blend of the candle composer\<close>

lemma lp_ge_lineModeProg: "lineModeProg \<le> lp lineModeProg reveal"
  by (simp add: lp_def)

lemma colorBlend_unit:
  assumes "0 \<le> lineModeProg"
  shows "0 \<le> colorBlend lineModeProg reveal \<and> colorBlend lineModeProg reveal \<le> 1"
proof (cases "lp lineModeProg reveal > 0.001")
  case True
  then have pos: "0 < lp lineModeProg reveal" by simp
  have "lineModeProg / lp lineModeProg reveal \<le> 1"
    using pos lp_ge_lineModeProg[of lineModeProg reveal] by (simp add: divide_le_eq)
  moreover have "0 \<le> lineModeProg / lp lineModeProg reveal"
    using pos assms by simp
  ultimately show ?thesis using True by (simp add: colorBlend_def)
next
  case False
  then show ?thesis by (simp add: colorBlend_def)
qed

text \<open>
  Claim C4 says that some inputs with \<open>lineModeProg\<close> and \<open>reveal\<close> in \<open>[0,1]\<close> pass the
  \<open>lp > 0.001\<close> gate with \<open>lineModeProg / lp > 1\<close>. There are none: \<open>lp\<close> is the maximum of
  \<open>lineModeProg\<close> and \<open>revealLine\<close>, so the ratio never exceeds 1.
\<close>

theorem colorBlend_exceeds_one_counterexample:
  "\<not> (\<exists>lineModeProg reveal. 0 \<le> lineModeProg \<and> lineModeProg \<le> 1 \<and> 0 \<le> reveal \<and> reveal \<le> 1
        \<and> lp lineModeProg reveal > 0.001
        \<and> lineModeProg / lp lineModeProg reveal > 1)"
proof
  assume "\<exists>lineModeProg reveal. 0 \<le> lineModeProg \<and> lineModeProg \<le> 1 \<and> 0 \<le> reveal \<and> reveal \<le> 1
        \<and> lp lineModeProg reveal > 0.001
        \<and> lineModeProg / lp lineModeProg reveal > 1"
  then obtain m r where m: "0 \<le> m" and gate: "lp m r > 0.001" and big: "m / lp m r > 1"
    by blast
  from gate have "colorBlend m r = m / lp m r" by (simp add: colorBlend_def)
  with colorBlend_unit[OF m, of r] big show False by simp
qed

text \<open>
  Claim C4, amended. For every \<open>lineModeProg\<close> in \<open>[0,1]\<close> and every \<open>reveal\<close> in \<open>[0,1]\<close>,
  \<open>colorBlend\<close> lies in \<open>[0,1]\<close>. Past the gate \<open>lp > 0.001\<close> it is the ratio
  \<open>lineModeProg / lp\<close>, which is then at most 1 without any clamp, since
  \<open>lp = max(lineModeProg, revealLine) \<ge> lineModeProg\<close>. At or below the gate it is 1.
\<close>

theorem colorBlend_in_unit_interval:
  assumes "0 \<le> lineModeProg" "lineModeProg \<le> 1" "0 \<le> reveal" "reveal \<le> 1"
  shows "0 \<le> colorBlend lineModeProg reveal \<and> colorBlend lineModeProg reveal \<le> 1
         \<and> lp lineModeProg reveal = max lineModeProg (revealLine lineModeProg reveal)
         \<and> lineModeProg \<le> lp lineModeProg reveal
         \<and> (lp lineModeProg reveal > 0.001 \<longrightarrow>
              colorBlend lineModeProg reveal = lineModeProg / lp lineModeProg reveal
              \<and> lineModeProg / lp lineModeProg reveal \<le> 1)
         \<and> (lp lineModeProg reveal \<le> 0.001 \<longrightarrow> colorBlend lineModeProg reveal = 1)"
proof (intro conjI impI)
  show "0 \<le> colorBlend lineModeProg reveal" "colorBlend lineModeProg reveal \<le> 1"
    using colorBlend_unit[OF assms(1), of reveal] by simp_all
  show "lp lineModeProg reveal = max lineModeProg (revealLine lineModeProg reveal)"
    by (simp add: lp_def)
  show "lineModeProg \<le> lp lineModeProg reveal"
    by (rule lp_ge_lineModeProg)
  show "colorBlend lineModeProg reveal = lineModeProg / lp lineModeProg reveal"
    if "lp lineModeProg reveal > 0.001"
    using that by (simp add: colorBlend_def)
  show "lineModeProg / lp lineModeProg reveal \<le> 1"
    if "lp lineModeProg reveal > 0.001"
    using that colorBlend_unit[OF assms(1), of reveal] by (simp add: colorBlend_def)
  show "colorBlend lineModeProg reveal = 1"
    if "lp lineModeProg reveal \<le> 0.001"
    using that by (simp add: colorBlend_def)
qed

theorem colorBlend_in_unit_interval_witness:
  "(0::real) \<le> 0.002 \<and> (0.002::real) \<le> 1 \<and> (0::real) \<le> 1 \<and> (1::real) \<le> 1
   \<and> lp 0.002 1 = 0.002 \<and> lp 0.002 1 > 0.001
   \<and> colorBlend 0.002 1 = 1
   \<and> lp 0.25 0 = 1 \<and> colorBlend 0.25 0 = 0.25
   \<and> lp 0 1 = 0 \<and> lp 0 1 \<le> 0.001
   \<and> colorBlend 0 1 = 1"
proof -
  have l: "lp (1 / 500) 1 = 1 / 500" "lp (1 / 4) 0 = 1" "lp 0 1 = 0"
    by (simp_all add: lp_def revealLine_def fullLineMode_def)
  have a: "colorBlend (1 / 500) 1 = 1"
    using colorBlend_in_unit_interval[of "1 / 500" 1] by (simp add: l)
  have b: "colorBlend (1 / 4) 0 = 1 / 4"
    using colorBlend_in_unit_interval[of "1 / 4" 0] by (simp add: l)
  have c: "colorBlend 0 1 = 1"
    using colorBlend_in_unit_interval[of 0 1] by (simp add: l)
  show ?thesis
    by (simp add: l a b c)
qed

subsection \<open>Bars\<close>

lemma trace_issue: "trace (issue k c) = trace c @ [k]"
  by (simp add: trace_def issue_def)

lemma trace_run: "trace (run ks c) = trace c @ ks"
  by (induction ks arbitrary: c) (simp_all add: run.simps trace_issue)

lemma issued_trace: "trace c' = trace c @ ks \<Longrightarrow> issued c c' = ks"
  by (metis append_eq_conv_conj drop_map issued_def length_map trace_def)

lemma issued_run: "issued c (run ks c) = ks"
  by (simp add: issued_trace trace_run)

lemma run_append: "run (ks @ ks') c = run ks' (run ks c)"
  by (induction ks arbitrary: c) (simp_all add: run.simps)

lemma drawBars_run: "drawBars nf layout barLayout opts c = run (barsCalls nf layout barLayout opts (globalAlpha c)) c"
  by (simp add: drawBars_def barsCalls_def barsBody_def Let_def run_append run.simps)

lemma issued_drawBars:
  "issued c (drawBars nf layout barLayout opts c) = barsCalls nf layout barLayout opts (globalAlpha c)"
  by (simp only: drawBars_run issued_run)

lemma drawBar_hidden:
  assumes "b_revealProgress opts = 0"
  shows "drawBar layout barLayout opts barPxWidth halfBar cornerR baseAlpha b = []"
  using assms by (simp add: drawBar_def Let_def)

lemma drawBarLabel_kind:
  assumes "k \<in> set (drawBarLabel nf layout barLayout opts fontSize b)"
  shows "\<exists>t x y. k = Prim (FillText t x y)"
  using assms
  by (auto simp: drawBarLabel_def Let_def split: if_splits)

lemma barsBody_mem:
  assumes "k \<in> set (barsBody nf layout barLayout opts w r fs baseAlpha)"
  shows "(\<exists>b\<in>set (b_bars opts). k \<in> set (drawBar layout barLayout opts w (w / 2) r baseAlpha b))
         \<or> (\<exists>t x y. k = Prim (FillText t x y))
         \<or> (\<exists>s. k = Prim (SetFillStyle s)) \<or> (\<exists>a. k = Prim (SetGlobalAlpha a))
         \<or> k = Prim Save \<or> k = Prim Restore \<or> (\<exists>s. k = Prim (SetFont s))
         \<or> (\<exists>s. k = Prim (SetTextAlign s)) \<or> (\<exists>s. k = Prim (SetTextBaseline s))"
  using assms unfolding barsBody_def
  by (auto split: if_splits dest: drawBarLabel_kind)

lemma barsCalls_hidden:
  assumes "b_revealProgress opts = 0"
  shows "barsCalls nf layout barLayout opts baseAlpha =
           (if b_bars opts = [] \<or> maxValue barLayout \<le> 0 then []
            else [Prim (SetFillStyle (b_fillColor opts)), Prim (SetGlobalAlpha baseAlpha)])"
  using assms by (simp add: barsCalls_def barsBody_def Let_def drawBar_hidden)

lemma concat_map_if:
  "concat (map (\<lambda>x. if P x then f x else []) xs) = concat (map f (filter P xs))"
  by (induction xs) simp_all

lemma drawBar_shape:
  "filter isBarShape
     (drawBar layout barLayout opts (barWidthPx layout opts) (barWidthPx layout opts / 2)
        (if barWidthPx layout opts > 6 then 1.5 else 0) baseAlpha b) =
     (if bar_value b > 0
         \<and> \<not> (barLeft layout opts b + barWidthPx layout opts < pad_left (pad layout)
               \<or> barLeft layout opts b > pad_left (pad layout) + chartW layout)
         \<and> \<not> barHeight barLayout opts b < 0.5
      then
        (if barWidthPx layout opts > 6 \<and> barHeight barLayout opts b > 3 then
           [Prim BeginPath,
            Prim (MoveTo (barLeft layout opts b) (bottom barLayout)),
            Prim (LineTo (barLeft layout opts b)
                    (bottom barLayout - barHeight barLayout opts b + 1.5)),
            Prim (ArcTo (barLeft layout opts b) (bottom barLayout - barHeight barLayout opts b)
                    (barLeft layout opts b + 1.5) (bottom barLayout - barHeight barLayout opts b)
                    1.5),
            Prim (LineTo (barLeft layout opts b + barWidthPx layout opts - 1.5)
                    (bottom barLayout - barHeight barLayout opts b)),
            Prim (ArcTo (barLeft layout opts b + barWidthPx layout opts)
                    (bottom barLayout - barHeight barLayout opts b)
                    (barLeft layout opts b + barWidthPx layout opts)
                    (bottom barLayout - barHeight barLayout opts b + 1.5) 1.5),
            Prim (LineTo (barLeft layout opts b + barWidthPx layout opts) (bottom barLayout)),
            Prim ClosePath,
            Prim Fill]
         else [Prim (FillRect (barLeft layout opts b)
                       (bottom barLayout - barHeight barLayout opts b)
                       (barWidthPx layout opts) (barHeight barLayout opts b))])
      else [])"
  by (simp add: drawBar_def Let_def barLeft_def barHeight_def split: option.splits)

lemma drawBarLabel_noshape:
  "filter isBarShape (drawBarLabel nf layout barLayout opts fontSize b) = []"
  by (simp add: drawBarLabel_def Let_def)

lemma barsCalls_shapes:
  "filter isBarShape (barsCalls nf layout barLayout opts baseAlpha) =
     (if b_bars opts = [] \<or> maxValue barLayout \<le> 0 then []
      else concat (map (\<lambda>b. filter isBarShape
             (drawBar layout barLayout opts (barWidthPx layout opts) (barWidthPx layout opts / 2)
                (if barWidthPx layout opts > 6 then 1.5 else 0) baseAlpha b)) (b_bars opts)))"
  by (simp add: barsCalls_def barsBody_def Let_def barWidthPx_def filter_concat comp_def
      drawBarLabel_noshape)

text \<open>
  Claim C9. The calls of \<open>drawBars\<close> that draw a shape are, bar by bar in the order of
  \<open>bars\<close>, one shape for every bar that is drawn: a bar of positive value, not wholly outside
  the plot, whose height is at least half a pixel. The shape of the bar \<open>b\<close> has the height
  \<open>(value b / maxValue) * maxHeight * revealProgress\<close> of that bar, which is linear in
  \<open>revealProgress\<close>, and stands on \<open>barLayout.bottom\<close>: the rectangle spans from
  \<open>bottom - height\<close> to \<open>bottom\<close>; the rounded shape, chosen when the bar is wider than 6
  and higher than 3, starts and ends on \<open>bottom\<close> and has its top on \<open>bottom - height\<close>. At
  \<open>revealProgress = 0\<close> every height is 0 and no bar is drawn: the only calls left are the
  two assignments around the loop.
\<close>

theorem drawBars_height_anchored:
  "filter isBarShape (issued c (drawBars nf layout barLayout opts c)) =
     (if b_bars opts = [] \<or> maxValue barLayout \<le> 0 then []
      else
        concat (map
          (\<lambda>b. let h = barHeight barLayout opts b;
                    w = barWidthPx layout opts;
                    x = barLeft layout opts b;
                    top = bottom barLayout - h
                in if w > 6 \<and> h > 3 then
                     [Prim BeginPath,
                      Prim (MoveTo x (bottom barLayout)),
                      Prim (LineTo x (top + 1.5)),
                      Prim (ArcTo x top (x + 1.5) top 1.5),
                      Prim (LineTo (x + w - 1.5) top),
                      Prim (ArcTo (x + w) top (x + w) (top + 1.5) 1.5),
                      Prim (LineTo (x + w) (bottom barLayout)),
                      Prim ClosePath,
                      Prim Fill]
                   else [Prim (FillRect x top w h)])
          (filter
            (\<lambda>b. bar_value b > 0
                 \<and> \<not> (barLeft layout opts b + barWidthPx layout opts < pad_left (pad layout)
                       \<or> barLeft layout opts b > pad_left (pad layout) + chartW layout)
                 \<and> \<not> barHeight barLayout opts b < 0.5)
            (b_bars opts))))
   \<and> (\<forall>b. barHeight barLayout opts b =
          (bar_value b / maxValue barLayout) * maxHeight barLayout * b_revealProgress opts)
   \<and> (\<forall>b r. barHeight barLayout (opts\<lparr> b_revealProgress := r \<rparr>) b =
          r * barHeight barLayout (opts\<lparr> b_revealProgress := 1 \<rparr>) b)
   \<and> (b_revealProgress opts = 0 \<longrightarrow>
        (\<forall>b. barHeight barLayout opts b = 0)
        \<and> filter isBarShape (issued c (drawBars nf layout barLayout opts c)) = []
        \<and> issued c (drawBars nf layout barLayout opts c) =
           (if b_bars opts = [] \<or> maxValue barLayout \<le> 0 then []
            else [Prim (SetFillStyle (b_fillColor opts)), Prim (SetGlobalAlpha (globalAlpha c))]))"
proof (intro conjI impI)
  show "filter isBarShape (issued c (drawBars nf layout barLayout opts c)) =
     (if b_bars opts = [] \<or> maxValue barLayout \<le> 0 then []
      else
        concat (map
          (\<lambda>b. let h = barHeight barLayout opts b;
                    w = barWidthPx layout opts;
                    x = barLeft layout opts b;
                    top = bottom barLayout - h
                in if w > 6 \<and> h > 3 then
                     [Prim BeginPath,
                      Prim (MoveTo x (bottom barLayout)),
                      Prim (LineTo x (top + 1.5)),
                      Prim (ArcTo x top (x + 1.5) top 1.5),
                      Prim (LineTo (x + w - 1.5) top),
                      Prim (ArcTo (x + w) top (x + w) (top + 1.5) 1.5),
                      Prim (LineTo (x + w) (bottom barLayout)),
                      Prim ClosePath,
                      Prim Fill]
                   else [Prim (FillRect x top w h)])
          (filter
            (\<lambda>b. bar_value b > 0
                 \<and> \<not> (barLeft layout opts b + barWidthPx layout opts < pad_left (pad layout)
                       \<or> barLeft layout opts b > pad_left (pad layout) + chartW layout)
                 \<and> \<not> barHeight barLayout opts b < 0.5)
            (b_bars opts))))"
    unfolding issued_drawBars barsCalls_shapes drawBar_shape concat_map_if
    by (simp add: Let_def)
  show "\<forall>b. barHeight barLayout opts b =
          (bar_value b / maxValue barLayout) * maxHeight barLayout * b_revealProgress opts"
    by (simp add: barHeight_def)
  show "\<forall>b r. barHeight barLayout (opts\<lparr> b_revealProgress := r \<rparr>) b =
          r * barHeight barLayout (opts\<lparr> b_revealProgress := 1 \<rparr>) b"
    by (simp add: barHeight_def)
  show "\<forall>b. barHeight barLayout opts b = 0" if "b_revealProgress opts = 0"
    using that by (simp add: barHeight_def)
  show "filter isBarShape (issued c (drawBars nf layout barLayout opts c)) = []"
    if "b_revealProgress opts = 0"
    using that by (simp add: issued_drawBars barsCalls_hidden)
  show "issued c (drawBars nf layout barLayout opts c) =
           (if b_bars opts = [] \<or> maxValue barLayout \<le> 0 then []
            else [Prim (SetFillStyle (b_fillColor opts)), Prim (SetGlobalAlpha (globalAlpha c))])"
    if "b_revealProgress opts = 0"
    using that by (simp only: issued_drawBars barsCalls_hidden)
qed

theorem drawBars_height_anchored_witness:
  "filter isBarShape (issued ctx0 (drawBars ex_nf ex_layout ex_barLayout ex_barOpts ctx0)) =
     [Prim BeginPath, Prim (MoveTo 31 180), Prim (LineTo 31 171.5),
      Prim (ArcTo 31 170 32.5 170 1.5), Prim (LineTo 37.5 170),
      Prim (ArcTo 39 170 39 171.5 1.5), Prim (LineTo 39 180), Prim ClosePath, Prim Fill,
      Prim (FillRect 41 178 8 2)]
   \<and> map (barHeight ex_barLayout ex_barOpts) (b_bars ex_barOpts) = [10, 2]
   \<and> bottom ex_barLayout = 180
   \<and> b_revealProgress (ex_barOpts\<lparr> b_revealProgress := 0 \<rparr>) = 0
   \<and> issued ctx0 (drawBars ex_nf ex_layout ex_barLayout (ex_barOpts\<lparr> b_revealProgress := 0 \<rparr>) ctx0)
       = [Prim (SetFillStyle ''grey''), Prim (SetGlobalAlpha 1)]"
proof -
  have w: "barWidthPx ex_layout ex_barOpts = 8"
    by (simp add: barWidthPx_def ex_layout_def ex_barOpts_def)
  have x: "map (barLeft ex_layout ex_barOpts) (b_bars ex_barOpts) = [31, 41]"
    by (simp add: barLeft_def barWidthPx_def ex_layout_def ex_barOpts_def)
  note shown = drawBars_height_anchored[of ctx0 ex_nf ex_layout ex_barLayout ex_barOpts]
  note hidden = drawBars_height_anchored[of ctx0 ex_nf ex_layout ex_barLayout
      "ex_barOpts\<lparr> b_revealProgress := 0 \<rparr>"]
  have s: "filter isBarShape (issued ctx0 (drawBars ex_nf ex_layout ex_barLayout ex_barOpts ctx0)) =
     [Prim BeginPath, Prim (MoveTo 31 180), Prim (LineTo 31 171.5),
      Prim (ArcTo 31 170 32.5 170 1.5), Prim (LineTo 37.5 170),
      Prim (ArcTo 39 170 39 171.5 1.5), Prim (LineTo 39 180), Prim ClosePath, Prim Fill,
      Prim (FillRect 41 178 8 2)]"
    using shown x by (simp add: w Let_def) (simp add: ex_barOpts_def ex_barLayout_def ex_layout_def)
  have h: "issued ctx0 (drawBars ex_nf ex_layout ex_barLayout (ex_barOpts\<lparr> b_revealProgress := 0 \<rparr>) ctx0)
       = [Prim (SetFillStyle ''grey''), Prim (SetGlobalAlpha 1)]"
    using hidden by (simp add: ex_barOpts_def ex_barLayout_def ctx0_def)
  show ?thesis
    using s h by (simp add: barHeight_def ex_barOpts_def ex_barLayout_def)
qed

subsection \<open>The proximity fade as a function\<close>









subsection \<open>The multi-series composer\<close>

lemma calls_issue: "calls (issue k c) = calls c @ [Logged (globalAlpha c) (translation c) k]"
  by (simp add: issue_def)

lemma calls_run: "\<exists>ls. calls (run ks c) = calls c @ ls \<and> map the_call ls = ks"
proof (induction ks arbitrary: c)
  case Nil
  then show ?case by (simp add: run.simps)
next
  case (Cons k ks)
  from Cons.IH[of "issue k c"] obtain ls where
    "calls (run ks (issue k c)) = calls (issue k c) @ ls" "map the_call ls = ks"
    by blast
  then show ?case
    by (intro exI[of _ "Logged (globalAlpha c) (translation c) k # ls"])
       (simp add: calls_issue run.simps)
qed

lemma extends_refl: "extends P c c"
  by (simp add: extends_def)

lemma extends_weaken: "extends P c c' \<Longrightarrow> extends (\<lambda>k. True) c c'"
  unfolding extends_def by blast

lemma extends_trans [trans]: "extends P c c' \<Longrightarrow> extends P c' c'' \<Longrightarrow> extends P c c''"
  unfolding extends_def by fastforce

lemma extends_run:
  assumes "\<forall>k\<in>set ks. P k"
  shows "extends P c (run ks c)"
proof -
  from calls_run[of ks c] obtain ls where ls: "calls (run ks c) = calls c @ ls" "map the_call ls = ks"
    by blast
  from ls(2) assms have "\<forall>l\<in>set ls. P (the_call l)" by auto
  with ls(1) show ?thesis unfolding extends_def by blast
qed

lemma extends_issued:
  assumes "extends P c c'"
  shows "\<forall>k\<in>set (issued c c'). P k"
  using assms unfolding extends_def issued_def by auto

lemma barsCalls_prim:
  assumes "k \<in> set (barsCalls nf layout barLayout opts baseAlpha)"
  shows "\<exists>p. k = Prim p"
proof (cases "b_bars opts = [] \<or> maxValue barLayout \<le> 0")
  case True
  with assms show ?thesis by (simp add: barsCalls_def)
next
  case False
  with assms obtain w r fs where "k \<in> set (barsBody nf layout barLayout opts w r fs baseAlpha)"
    by (auto simp: barsCalls_def Let_def)
  from barsBody_mem[OF this] show ?thesis
    by (auto simp: drawBar_def Let_def split: if_splits option.splits)
qed

lemma extends_drawBars:
  assumes "\<And>p. P (Prim p)"
  shows "extends P c (drawBars nf layout barLayout opts c)"
  unfolding drawBars_run
  using assms barsCalls_prim by (intro extends_run) blast

lemma drawnLines_extends:
  assumes "extends (\<lambda>k. \<not> isDrawLine k) c c'"
  shows "drawnLines c c' = []"
proof -
  from assms obtain ls where ls: "calls c' = calls c @ ls" "\<forall>l\<in>set ls. \<not> isDrawLine (the_call l)"
    unfolding extends_def by blast
  have "lineOf l = []" if "l \<in> set ls" for l
    using ls(2) that by (cases l rule: lineOf.cases) auto
  with ls(1) show ?thesis by (simp add: drawnLines_def)
qed

lemma drawnLines_chain:
  assumes "extends P c c'" "extends Q c' c''"
  shows "drawnLines c c'' = drawnLines c c' @ drawnLines c' c''"
  using assms unfolding extends_def drawnLines_def by auto

lemma secondaryFade_unit:
  assumes "0 \<le> m_chartReveal opts"
  shows "0 \<le> secondaryFade opts si \<and> secondaryFade opts si \<le> 1"
  using assms by (simp add: secondaryFade_def Let_def)

lemma combinedAlpha_le_one:
  assumes "0 \<le> m_chartReveal opts" "seriesAlpha s \<le> 1"
    "\<not> secondaryFade opts si * seriesAlpha s < 0.01"
  shows "secondaryFade opts si * seriesAlpha s \<le> 1"
proof -
  from secondaryFade_unit[OF assms(1), of si]
  have f: "0 \<le> secondaryFade opts si" "secondaryFade opts si \<le> 1" by simp_all
  have "0 \<le> seriesAlpha s"
  proof (rule ccontr)
    assume "\<not> 0 \<le> seriesAlpha s"
    then have "secondaryFade opts si * seriesAlpha s \<le> 0"
      using f(1) by (simp add: mult_nonneg_nonpos)
    with assms(3) show False by simp
  qed
  then have "secondaryFade opts si * seriesAlpha s \<le> 1 * seriesAlpha s"
    using f(2) by (intro mult_right_mono)
  with assms(2) show ?thesis by simp
qed

lemma multiSeriesStep_lines:
  assumes "globalAlpha c = 1" "0 \<le> m_chartReveal opts" "seriesAlpha s \<le> 1"
  shows "globalAlpha (fst (multiSeriesStep ptsOf opts si s (c, ap))) = 1"
    and "extends (\<lambda>k. True) c (fst (multiSeriesStep ptsOf opts si s (c, ap)))"
    and "drawnLines c (fst (multiSeriesStep ptsOf opts si s (c, ap))) =
           (if secondaryFade opts si * seriesAlpha s < 0.01 then []
            else [(secondaryFade opts si * seriesAlpha s, multiLineArgs opts s)])"
proof -
  define a where "a = secondaryFade opts si * seriesAlpha s"
  have le: "a \<le> 1" if "\<not> a < 0.01"
    using combinedAlpha_le_one[OF assms(2,3), of si] that by (simp add: a_def)
  show "globalAlpha (fst (multiSeriesStep ptsOf opts si s (c, ap))) = 1"
    using assms(1)
    by (simp add: multiSeriesStep_def Let_def run.simps issue_def effect_def split: option.splits)
  show "extends (\<lambda>k. True) c (fst (multiSeriesStep ptsOf opts si s (c, ap)))"
    by (simp add: multiSeriesStep_def Let_def extends_refl extends_run split: option.splits)
  show "drawnLines c (fst (multiSeriesStep ptsOf opts si s (c, ap))) =
           (if secondaryFade opts si * seriesAlpha s < 0.01 then []
            else [(secondaryFade opts si * seriesAlpha s, multiLineArgs opts s)])"
    using assms(1) le unfolding a_def[symmetric]
    by (auto simp: multiSeriesStep_def a_def[symmetric] Let_def run.simps issue_def effect_def
        drawnLines_def split: option.splits)
qed

lemma multiSeriesLoop_lines:
  assumes "globalAlpha c = 1" "0 \<le> m_chartReveal opts" "\<forall>s\<in>set ss. seriesAlpha s \<le> 1"
  shows "extends (\<lambda>k. True) c (fst (multiSeriesLoop ptsOf opts si ss (c, ap)))
         \<and> drawnLines c (fst (multiSeriesLoop ptsOf opts si ss (c, ap))) =
             map (\<lambda>(i, s). (secondaryFade opts i * seriesAlpha s, multiLineArgs opts s))
               (filter (\<lambda>(i, s). \<not> secondaryFade opts i * seriesAlpha s < 0.01) (enumerate si ss))"
  using assms
proof (induction ss arbitrary: si c ap)
  case Nil
  then show ?case by (simp add: extends_refl drawnLines_def)
next
  case (Cons s ss)
  obtain c1 ap1 where st: "multiSeriesStep ptsOf opts si s (c, ap) = (c1, ap1)"
    by (cases "multiSeriesStep ptsOf opts si s (c, ap)")
  from Cons.prems have s1: "seriesAlpha s \<le> 1" and rest: "\<forall>s\<in>set ss. seriesAlpha s \<le> 1"
    by simp_all
  note step = multiSeriesStep_lines[OF Cons.prems(1,2) s1, of ptsOf si ap, unfolded st fst_conv]
  note ih = Cons.IH[OF step(1) Cons.prems(2) rest, of "Suc si" ap1]
  from ih have e2: "extends (\<lambda>k. True) c1 (fst (multiSeriesLoop ptsOf opts (Suc si) ss (c1, ap1)))"
    by (elim conjE)
  have "drawnLines c (fst (multiSeriesLoop ptsOf opts (Suc si) ss (c1, ap1)))
        = drawnLines c c1 @ drawnLines c1 (fst (multiSeriesLoop ptsOf opts (Suc si) ss (c1, ap1)))"
    using step(2) e2 by (rule drawnLines_chain)
  with ih step(3) extends_trans[OF step(2) e2] show ?case
    by (simp add: st enumerate_simps)
qed

lemma multi_layers_no_line:
  "extends (\<lambda>k. \<not> isDrawLine k) c (multiReferenceLine opts c)"
  "extends (\<lambda>k. \<not> isDrawLine k) c (multiGrid opts c)"
  "extends (\<lambda>k. \<not> isDrawLine k) c (multiTimeAxis opts c)"
  "extends (\<lambda>k. \<not> isDrawLine k) c (run (leftEdgeFade layout) c)"
  "extends (\<lambda>k. \<not> isDrawLine k) c (multiCrosshair layout opts allPts c)"
  by (auto simp: multiReferenceLine_def multiGrid_def multiTimeAxis_def multiCrosshair_def
      leftEdgeFade_def layer_def Let_def
      intro!: extends_refl extends_run split: option.splits)

lemma multiDot_no_line: "k \<in> set (multiDot opts dotAlpha showPulse entry) \<Longrightarrow> \<not> isDrawLine k"
  by (auto simp: multiDot_def Let_def split: if_splits)

lemma multiDots_no_line: "extends (\<lambda>k. \<not> isDrawLine k) c (multiDots opts allPts c)"
  by (auto simp: multiDots_def Let_def intro!: extends_refl extends_run dest: multiDot_no_line)

lemma multi_layers_alpha:
  "globalAlpha (multiReferenceLine opts c) = globalAlpha c"
  "globalAlpha (multiGrid opts c) = globalAlpha c"
  by (simp_all add: multiReferenceLine_def multiGrid_def layer_def Let_def run.simps issue_def
      effect_def)

lemma drawMultiFrame_lines:
  assumes "globalAlpha ctx = 1" "0 \<le> m_chartReveal opts"
    "\<forall>s\<in>set (m_series opts). seriesAlpha s \<le> 1"
  shows "drawnLines ctx (drawMultiFrame ptsOf ctx layout opts) =
           map (\<lambda>(si, s). (secondaryFade opts si * seriesAlpha s, multiLineArgs opts s))
             (filter (\<lambda>(si, s). \<not> secondaryFade opts si * seriesAlpha s < 0.01)
                (enumerate 0 (m_series opts)))"
proof -
  define c1 where "c1 = multiReferenceLine opts ctx"
  define c2 where "c2 = multiGrid opts c1"
  obtain c3 allPts where loop: "multiSeriesLoop ptsOf opts 0 (m_series opts) (c2, []) = (c3, allPts)"
    by (cases "multiSeriesLoop ptsOf opts 0 (m_series opts) (c2, [])")
  define c4 where "c4 = multiTimeAxis opts c3"
  define c5 where "c5 = multiDots opts allPts c4"
  define c6 where "c6 = run (leftEdgeFade layout) c5"
  define c7 where "c7 = multiCrosshair layout opts allPts c6"
  have res: "drawMultiFrame ptsOf ctx layout opts = c7"
    by (simp add: drawMultiFrame_def Let_def loop[unfolded c2_def c1_def] c4_def c5_def c6_def
        c7_def)
  let ?N = "\<lambda>k. \<not> isDrawLine k"
  have before: "extends ?N ctx c2"
    unfolding c1_def c2_def
    by (rule extends_trans[OF multi_layers_no_line(1) multi_layers_no_line(2)])
  have a2: "globalAlpha c2 = 1"
    using assms(1) by (simp add: c1_def c2_def multi_layers_alpha)
  note l = multiSeriesLoop_lines[OF a2 assms(2,3), of ptsOf 0 "[]", unfolded loop fst_conv]
  from l have during: "extends (\<lambda>k. True) c2 c3" by (elim conjE)
  have "extends ?N c3 c4"
    unfolding c4_def by (rule multi_layers_no_line(3))
  also have "extends ?N c4 c5"
    unfolding c5_def by (rule multiDots_no_line)
  also have "extends ?N c5 c6"
    unfolding c6_def by (rule multi_layers_no_line(4))
  also have "extends ?N c6 c7"
    unfolding c7_def by (rule multi_layers_no_line(5))
  finally have after: "extends ?N c3 c7" .
  have "drawnLines ctx c7 = drawnLines ctx c3 @ drawnLines c3 c7"
    using extends_trans[OF before[THEN extends_weaken] during] after
    by (rule drawnLines_chain)
  also have "drawnLines ctx c3 = drawnLines ctx c2 @ drawnLines c2 c3"
    using before during by (rule drawnLines_chain)
  finally show ?thesis
    using l by (simp add: res drawnLines_extends[OF before] drawnLines_extends[OF after])
qed

text \<open>
  Claim C7. In the multi-series composer each series' line is drawn at the alpha
  \<open>seriesAlpha * f\<close>, with \<open>f = min(1, reveal * 2)\<close> for every series after the first when
  \<open>reveal < 1\<close> and \<open>f = 1\<close> otherwise; at \<open>reveal = 0.5\<close> the factor of a secondary series is
  1, at \<open>reveal = 0.1\<close> it is 0.2; a series whose combined alpha is below 0.01 is not drawn.
  The frame starts from the alpha 1 of a canvas, \<open>reveal\<close> is not negative and no series alpha
  exceeds 1.
\<close>

theorem multi_series_secondary_fade:
  assumes "globalAlpha ctx = 1" "0 \<le> m_chartReveal opts"
    "\<forall>s\<in>set (m_series opts). seriesAlpha s \<le> 1"
  shows "drawnLines ctx (drawMultiFrame ptsOf ctx layout opts) =
           map (\<lambda>(si, s). (secondaryFade opts si * seriesAlpha s, multiLineArgs opts s))
             (filter (\<lambda>(si, s). \<not> secondaryFade opts si * seriesAlpha s < 0.01)
                (enumerate 0 (m_series opts)))
         \<and> (\<forall>si. secondaryFade opts si =
                (if si > 0 \<and> m_chartReveal opts < 1 then min 1 (m_chartReveal opts * 2) else 1))
         \<and> (m_chartReveal opts = 0.5 \<longrightarrow> (\<forall>si>0. secondaryFade opts si = 1))
         \<and> (m_chartReveal opts = 0.1 \<longrightarrow> (\<forall>si>0. secondaryFade opts si = 0.2))"
proof (intro conjI allI impI)
  show "drawnLines ctx (drawMultiFrame ptsOf ctx layout opts) =
           map (\<lambda>(si, s). (secondaryFade opts si * seriesAlpha s, multiLineArgs opts s))
             (filter (\<lambda>(si, s). \<not> secondaryFade opts si * seriesAlpha s < 0.01)
                (enumerate 0 (m_series opts)))"
    using assms by (rule drawMultiFrame_lines)
  show "secondaryFade opts si =
          (if si > 0 \<and> m_chartReveal opts < 1 then min 1 (m_chartReveal opts * 2) else 1)" for si
    by (simp add: secondaryFade_def Let_def)
  show "secondaryFade opts si = 1" if "m_chartReveal opts = 0.5" "0 < si" for si
    using that by (simp add: secondaryFade_def Let_def)
  show "secondaryFade opts si = 0.2" if "m_chartReveal opts = 0.1" "0 < si" for si
    using that by (simp add: secondaryFade_def Let_def)
qed

theorem multi_series_secondary_fade_witness:
  "globalAlpha ctx0 = 1 \<and> 0 \<le> m_chartReveal ex_multiOpts
   \<and> list_all (\<lambda>s. seriesAlpha s \<le> 1) (m_series ex_multiOpts)
   \<and> map fst (drawnLines ctx0 (drawMultiFrame ex_ptsOf ctx0 ex_layout ex_multiOpts)) = [1, 0.1]
   \<and> map fst (drawnLines ctx0
        (drawMultiFrame ex_ptsOf ctx0 ex_layout (ex_multiOpts\<lparr> m_chartReveal := 0.5 \<rparr>)))
       = [1, 0.5, 0.04]"
proof -
  have a: "globalAlpha ctx0 = 1"
    by (simp add: ctx0_def)
  have r: "0 \<le> m_chartReveal ex_multiOpts" "0 \<le> m_chartReveal (ex_multiOpts\<lparr> m_chartReveal := 0.5 \<rparr>)"
    by (simp_all add: ex_multiOpts_def)
  have s: "\<forall>s\<in>set (m_series ex_multiOpts). seriesAlpha s \<le> 1"
    "\<forall>s\<in>set (m_series (ex_multiOpts\<lparr> m_chartReveal := 0.5 \<rparr>)). seriesAlpha s \<le> 1"
    by (simp_all add: ex_multiOpts_def ex_series_def seriesAlpha_def)
  have "map fst (drawnLines ctx0 (drawMultiFrame ex_ptsOf ctx0 ex_layout ex_multiOpts)) = [1, 0.1]"
    using multi_series_secondary_fade[OF a r(1) s(1), of ex_ptsOf ex_layout]
    by (simp add: ex_multiOpts_def ex_series_def seriesAlpha_def secondaryFade_def
        enumerate_simps)
  moreover have "map fst (drawnLines ctx0
        (drawMultiFrame ex_ptsOf ctx0 ex_layout (ex_multiOpts\<lparr> m_chartReveal := 0.5 \<rparr>)))
       = [1, 0.5, 0.04]"
    using multi_series_secondary_fade[OF a r(2) s(2), of ex_ptsOf ex_layout]
    by (simp add: ex_multiOpts_def ex_series_def seriesAlpha_def secondaryFade_def
        enumerate_simps)
  ultimately show ?thesis using a r(1) s(1) by (simp add: list_all_iff)
qed

subsection \<open>The hidden state, reveal 0\<close>

lemma revealRamp_zero: "0 \<le> start \<Longrightarrow> start < end' \<Longrightarrow> revealRamp 0 start end' = 0"
  by (rule revealRamp_before) simp_all

lemma issued_chain:
  assumes "extends P c c'" "extends Q c' c''"
  shows "issued c c'' = issued c c' @ issued c' c''"
  using assms unfolding extends_def issued_def by auto


lemma extends_mono: "extends P c c' \<Longrightarrow> (\<And>k. P k \<Longrightarrow> Q k) \<Longrightarrow> extends Q c c'"
  unfolding extends_def by blast

lemma frame_hidden_layers:
  assumes "o_chartReveal opts = 0"
  shows "frameReferenceLine opts c = c" "frameGrid opts c = c" "frameOrderbook opts c = c"
    "frameBarsOverlay nf layout palette opts c = c" "frameTimeAxis opts c = c"
    "frameDot layout opts lastPt c = c" "frameArrows opts lastPt c = c"
    "frameParticles env palette opts lastPt st = st"
    "frameBarsDefault nf layout palette opts c = c"
  using assms
  by (simp_all add: frameReferenceLine_def frameGrid_def frameOrderbook_def frameBarsOverlay_def
      frameTimeAxis_def frameDot_def frameArrows_def frameParticles_def frameBarsDefault_def
      Let_def revealRamp_zero split: option.splits)

lemma drawFrame_hidden:
  assumes "o_chartReveal opts = 0"
  shows "fst (drawFrame env nf ctx layout palette opts) =
     (let c0 = fst (frameShake env opts ctx);
          c3 = run [Ext (DrawLine (frameLineArgs palette opts))] c0;
          c7 = run (leftEdgeFade layout) c3;
          c8 = frameCrosshair env layout opts c7
      in if o_shakeState opts \<noteq> None
            \<and> (fst (snd (frameShake env opts ctx)) \<noteq> 0 \<or> snd (snd (frameShake env opts ctx)) \<noteq> 0)
         then run [Prim Restore] c8 else c8)"
  by (simp add: drawFrame_def Let_def frame_hidden_layers[OF assms] frameLine_def split_beta
      split: option.splits)

lemma frameShake_extends:
  "extends (\<lambda>k. k = Prim Save \<or> isTranslate k) c (fst (frameShake env opts c))"
  by (auto simp: frameShake_def Let_def intro!: extends_refl extends_run split: option.splits)

lemma frameCrosshair_extends: "extends isDrawCrosshair c (frameCrosshair env layout opts c)"
  by (auto simp: frameCrosshair_def Let_def intro!: extends_refl extends_run split: option.splits)

lemma drawFrame_hidden_issued:
  assumes "o_chartReveal opts = 0"
  shows "\<exists>pre post.
           issued ctx (fst (drawFrame env nf ctx layout palette opts)) =
             pre @ [Ext (DrawLine (frameLineArgs palette opts))] @ leftEdgeFade layout @ post
           \<and> (\<forall>k\<in>set pre. k = Prim Save \<or> isTranslate k)
           \<and> (\<forall>k\<in>set post. isDrawCrosshair k \<or> k = Prim Restore)"
proof -
  define c0 where "c0 = fst (frameShake env opts ctx)"
  define c3 where "c3 = run [Ext (DrawLine (frameLineArgs palette opts))] c0"
  define c7 where "c7 = run (leftEdgeFade layout) c3"
  define c8 where "c8 = frameCrosshair env layout opts c7"
  define c9 where "c9 = (if o_shakeState opts \<noteq> None
            \<and> (fst (snd (frameShake env opts ctx)) \<noteq> 0 \<or> snd (snd (frameShake env opts ctx)) \<noteq> 0)
         then run [Prim Restore] c8 else c8)"
  have res: "fst (drawFrame env nf ctx layout palette opts) = c9"
    by (simp add: drawFrame_hidden[OF assms] Let_def c0_def c3_def c7_def c8_def c9_def)
  let ?T = "\<lambda>k. True"
  let ?Pre = "\<lambda>k. k = Prim Save \<or> isTranslate k"
  let ?Post = "\<lambda>k. isDrawCrosshair k \<or> k = Prim Restore"
  have e0: "extends ?Pre ctx c0"
    unfolding c0_def by (rule frameShake_extends)
  have e3: "extends ?T c0 c3"
    unfolding c3_def by (rule extends_run) simp
  have e7: "extends ?T c3 c7"
    unfolding c7_def by (rule extends_run) simp
  have e8: "extends ?Post c7 c8"
    unfolding c8_def by (rule extends_mono[OF frameCrosshair_extends]) simp
  have e9: "extends ?Post c8 c9"
    unfolding c9_def by (auto intro!: extends_refl extends_run)
  have e79: "extends ?Post c7 c9"
    using e8 e9 by (rule extends_trans)
  have i3: "issued c0 c3 = [Ext (DrawLine (frameLineArgs palette opts))]"
    unfolding c3_def by (rule issued_run)
  have i7: "issued c3 c7 = leftEdgeFade layout"
    unfolding c7_def by (rule issued_run)
  have "issued ctx c9 = issued ctx c7 @ issued c7 c9"
    using extends_trans[OF extends_trans[OF extends_weaken[OF e0] e3] e7] e79
    by (rule issued_chain)
  also have "issued ctx c7 = issued ctx c3 @ issued c3 c7"
    using extends_trans[OF extends_weaken[OF e0] e3] e7 by (rule issued_chain)
  also have "issued ctx c3 = issued ctx c0 @ issued c0 c3"
    using e0 e3 by (rule issued_chain)
  finally have "issued ctx c9 =
      issued ctx c0 @ [Ext (DrawLine (frameLineArgs palette opts))] @ leftEdgeFade layout
        @ issued c7 c9"
    by (simp add: i3 i7)
  moreover have "\<forall>k\<in>set (issued ctx c0). k = Prim Save \<or> isTranslate k"
    using e0 by (rule extends_issued)
  moreover have "\<forall>k\<in>set (issued c7 c9). isDrawCrosshair k \<or> k = Prim Restore"
    using e79 by (rule extends_issued)
  ultimately show ?thesis
    unfolding res by blast
qed

lemma lp_hidden: "lp lineModeProg 0 = max lineModeProg 1"
  by (simp add: lp_def revealLine_def)

lemma candle_hidden_layers:
  assumes "c_chartReveal opts = 0"
  shows "candleGrid opts c = c" "candleBarsOverlay nf layout palette opts c = c"
    "candleClosePrice layout palette opts c = c" "candleBodies layout palette opts c = c"
    "candleBarsDefault nf layout palette opts c = c" "candleDot pts opts c = c"
    "candleTimeAxis opts c = c" "candleCrosshair opts c = c"
  using assms
  by (simp_all add: candleGrid_def candleBarsOverlay_def candleClosePrice_def candleBodies_def
      candleBarsDefault_def candleDot_def candleTimeAxis_def candleCrosshair_def candleAlpha_def
      Let_def revealRamp_zero split: option.splits)

lemma candleLineDrawn_hidden:
  assumes "c_chartReveal opts = 0"
  shows "candleLineDrawn opts \<longleftrightarrow> length (c_lineVisible opts) \<ge> 2"
  using assms by (simp add: candleLineDrawn_def lp_hidden max_def)

lemma candleEmpty_extends: "extends isDrawEmpty c (candleEmpty layout opts c)"
  by (auto simp: candleEmpty_def Let_def intro!: extends_refl extends_run)

lemma drawCandleFrame_hidden_issued:
  assumes "c_chartReveal opts = 0"
  shows "\<exists>post.
           issued ctx (drawCandleFrame ptsOfLine nf ctx layout palette opts) =
             (if length (c_lineVisible opts) \<ge> 2
              then [Prim Save, Prim (SetGlobalAlpha (max (c_lineModeProg opts) 1)),
                    Ext (DrawLine (candleLineArgs palette opts)), Prim Restore]
              else [])
             @ leftEdgeFade layout @ post
           \<and> (\<forall>k\<in>set post. isDrawEmpty k)"
proof -
  define ks where "ks = (if length (c_lineVisible opts) \<ge> 2
              then [Prim Save, Prim (SetGlobalAlpha (max (c_lineModeProg opts) 1)),
                    Ext (DrawLine (candleLineArgs palette opts)), Prim Restore]
              else [])"
  define c2 where "c2 = run ks ctx"
  define c7 where "c7 = run (leftEdgeFade layout) c2"
  define c8 where "c8 = candleEmpty layout opts c7"
  have line: "candleLine palette opts ctx = c2"
    using assms
    by (simp add: candleLine_def candleLineDrawn_hidden[OF assms] lp_hidden c2_def ks_def run.simps)
  have res: "drawCandleFrame ptsOfLine nf ctx layout palette opts = c8"
    by (simp add: drawCandleFrame_def Let_def candle_hidden_layers[OF assms] line c7_def c8_def)
  let ?T = "\<lambda>k. True"
  have e2: "extends ?T ctx c2"
    unfolding c2_def by (rule extends_run) simp
  have e7: "extends ?T c2 c7"
    unfolding c7_def by (rule extends_run) simp
  have e8: "extends isDrawEmpty c7 c8"
    unfolding c8_def by (rule candleEmpty_extends)
  have "issued ctx c8 = issued ctx c7 @ issued c7 c8"
    using extends_trans[OF e2 e7] e8 by (rule issued_chain)
  also have "issued ctx c7 = issued ctx c2 @ issued c2 c7"
    using e2 e7 by (rule issued_chain)
  finally have "issued ctx c8 = ks @ leftEdgeFade layout @ issued c7 c8"
    by (simp add: c2_def c7_def issued_run)
  moreover have "\<forall>k\<in>set (issued c7 c8). isDrawEmpty k"
    using e8 by (rule extends_issued)
  ultimately show ?thesis
    unfolding res ks_def by blast
qed

lemma leftEdgeFade_kinds:
  assumes "k \<in> set (leftEdgeFade layout)"
  shows "\<not> isDrawGrid k \<and> \<not> isDrawDot k \<and> \<not> isDrawCandlesticks k"
  using assms by (auto simp: leftEdgeFade_def)

lemma pre_kinds:
  assumes "k = Prim Save \<or> isTranslate k"
  shows "\<not> isDrawGrid k \<and> \<not> isDrawDot k \<and> \<not> isDrawCandlesticks k"
  using assms by (cases k rule: isTranslate.cases) auto

lemma post_kinds:
  assumes "isDrawCrosshair k \<or> k = Prim Restore"
  shows "\<not> isDrawGrid k \<and> \<not> isDrawDot k \<and> \<not> isDrawCandlesticks k"
  using assms by (cases k rule: isDrawCrosshair.cases) auto

lemma empty_kinds:
  assumes "isDrawEmpty k"
  shows "\<not> isDrawGrid k \<and> \<not> isDrawDot k \<and> \<not> isDrawCandlesticks k"
  using assms by (cases k rule: isDrawEmpty.cases) auto

lemma ex_hidden_frame:
  "issued ctx0 (fst (drawFrame ex_env ex_nf ctx0 ex_layout ex_palette ex_hiddenOpts)) =
     [Ext (DrawLine (frameLineArgs ex_palette ex_hiddenOpts))] @ leftEdgeFade ex_layout"
proof -
  have r: "o_chartReveal ex_hiddenOpts = 0" by (simp add: ex_hiddenOpts_def)
  have "fst (drawFrame ex_env ex_nf ctx0 ex_layout ex_palette ex_hiddenOpts) =
          run ([Ext (DrawLine (frameLineArgs ex_palette ex_hiddenOpts))] @ leftEdgeFade ex_layout) ctx0"
    unfolding drawFrame_hidden[OF r] run_append
    by (simp add: Let_def frameShake_def frameCrosshair_def ex_hiddenOpts_def)
  then show ?thesis by (simp only: issued_run)
qed

lemma ex_hidden_candle:
  "issued ctx0 (drawCandleFrame (linePts ex_env) ex_nf ctx0 ex_layout ex_palette ex_hiddenCandleOpts) =
     [Prim Save, Prim (SetGlobalAlpha 1),
      Ext (DrawLine (candleLineArgs ex_palette ex_hiddenCandleOpts)), Prim Restore]
     @ leftEdgeFade ex_layout"
proof -
  have r: "c_chartReveal ex_hiddenCandleOpts = 0" by (simp add: ex_hiddenCandleOpts_def)
  have l: "candleLineDrawn ex_hiddenCandleOpts"
    by (simp add: candleLineDrawn_hidden[OF r]) (simp add: ex_hiddenCandleOpts_def)
  have "drawCandleFrame (linePts ex_env) ex_nf ctx0 ex_layout ex_palette ex_hiddenCandleOpts =
          run ([Prim Save, Prim (SetGlobalAlpha 1),
                Ext (DrawLine (candleLineArgs ex_palette ex_hiddenCandleOpts)), Prim Restore]
               @ leftEdgeFade ex_layout) ctx0"
    unfolding run_append
    by (simp add: drawCandleFrame_def Let_def candle_hidden_layers[OF r] candleLine_def l
        candleEmpty_def lp_hidden[of "c_lineModeProg ex_hiddenCandleOpts", folded r])
       (simp add: ex_hiddenCandleOpts_def)
  then show ?thesis by (simp only: issued_run)
qed

text \<open>
  Claim C3 says that with \<open>chartReveal = 0\<close> neither composer calls \<open>drawLine\<close>. Both do:
  \<open>drawFrame\<close> calls it in every frame, and \<open>drawCandleFrame\<close> calls it at alpha
  \<open>lp = 1\<close> when the line has two points; the line at reveal 0 is the loading shape.
\<close>

theorem reveal_zero_line_counterexample:
  "o_chartReveal ex_hiddenOpts = 0
   \<and> Ext (DrawLine (frameLineArgs ex_palette ex_hiddenOpts))
        \<in> set (issued ctx0 (fst (drawFrame ex_env ex_nf ctx0 ex_layout ex_palette ex_hiddenOpts)))
   \<and> c_chartReveal ex_hiddenCandleOpts = 0
   \<and> Ext (DrawLine (candleLineArgs ex_palette ex_hiddenCandleOpts))
        \<in> set (issued ctx0
               (drawCandleFrame (linePts ex_env) ex_nf ctx0 ex_layout ex_palette ex_hiddenCandleOpts))"
  unfolding ex_hidden_frame ex_hidden_candle
  by (simp add: ex_hiddenOpts_def ex_hiddenCandleOpts_def)

text \<open>
  Claim C3, amended. With \<open>chartReveal = 0\<close> neither composer calls \<open>drawGrid\<close>, \<open>drawDot\<close> or
  \<open>drawCandlesticks\<close>. \<open>drawFrame\<close> still calls \<open>drawLine\<close> and then applies the left edge
  fade; before the line there is at most the save and translate of the shake, after the fade
  at most the crosshair and the restore of the shake. \<open>drawCandleFrame\<close> calls \<open>drawLine\<close> at
  alpha \<open>max(lineModeProg, 1)\<close> exactly when the line has at least two points, then applies the
  left edge fade, and after it at most the empty overlay.
\<close>

theorem reveal_zero_hidden_layers:
  assumes "o_chartReveal opts = 0" "c_chartReveal copts = 0"
  shows "(\<forall>k\<in>set (issued ctx (fst (drawFrame env nf ctx layout palette opts))).
            \<not> isDrawGrid k \<and> \<not> isDrawDot k \<and> \<not> isDrawCandlesticks k)
         \<and> (\<exists>pre post.
               issued ctx (fst (drawFrame env nf ctx layout palette opts)) =
                 pre @ [Ext (DrawLine (frameLineArgs palette opts))] @ leftEdgeFade layout @ post
               \<and> (\<forall>k\<in>set pre. k = Prim Save \<or> isTranslate k)
               \<and> (\<forall>k\<in>set post. isDrawCrosshair k \<or> k = Prim Restore))
         \<and> (\<forall>k\<in>set (issued ctx (drawCandleFrame ptsOfLine nf ctx layout palette copts)).
               \<not> isDrawGrid k \<and> \<not> isDrawDot k \<and> \<not> isDrawCandlesticks k)
         \<and> (\<exists>post.
               issued ctx (drawCandleFrame ptsOfLine nf ctx layout palette copts) =
                 (if length (c_lineVisible copts) \<ge> 2
                  then [Prim Save, Prim (SetGlobalAlpha (max (c_lineModeProg copts) 1)),
                        Ext (DrawLine (candleLineArgs palette copts)), Prim Restore]
                  else [])
                 @ leftEdgeFade layout @ post
               \<and> (\<forall>k\<in>set post. isDrawEmpty k))"
proof (intro conjI)
  note f = drawFrame_hidden_issued[OF assms(1), of ctx env nf layout palette]
  note c = drawCandleFrame_hidden_issued[OF assms(2), of ctx ptsOfLine nf layout palette]
  show "\<exists>pre post.
               issued ctx (fst (drawFrame env nf ctx layout palette opts)) =
                 pre @ [Ext (DrawLine (frameLineArgs palette opts))] @ leftEdgeFade layout @ post
               \<and> (\<forall>k\<in>set pre. k = Prim Save \<or> isTranslate k)
               \<and> (\<forall>k\<in>set post. isDrawCrosshair k \<or> k = Prim Restore)"
    by (rule f)
  show "\<exists>post.
               issued ctx (drawCandleFrame ptsOfLine nf ctx layout palette copts) =
                 (if length (c_lineVisible copts) \<ge> 2
                  then [Prim Save, Prim (SetGlobalAlpha (max (c_lineModeProg copts) 1)),
                        Ext (DrawLine (candleLineArgs palette copts)), Prim Restore]
                  else [])
                 @ leftEdgeFade layout @ post
               \<and> (\<forall>k\<in>set post. isDrawEmpty k)"
    by (rule c)
  from f obtain pre post where
    eq: "issued ctx (fst (drawFrame env nf ctx layout palette opts)) =
           pre @ [Ext (DrawLine (frameLineArgs palette opts))] @ leftEdgeFade layout @ post"
    and pre: "\<forall>k\<in>set pre. k = Prim Save \<or> isTranslate k"
    and post: "\<forall>k\<in>set post. isDrawCrosshair k \<or> k = Prim Restore"
    by blast
  show "\<forall>k\<in>set (issued ctx (fst (drawFrame env nf ctx layout palette opts))).
            \<not> isDrawGrid k \<and> \<not> isDrawDot k \<and> \<not> isDrawCandlesticks k"
  proof
    fix k assume "k \<in> set (issued ctx (fst (drawFrame env nf ctx layout palette opts)))"
    then consider "k \<in> set pre" | "k = Ext (DrawLine (frameLineArgs palette opts))"
      | "k \<in> set (leftEdgeFade layout)" | "k \<in> set post"
      unfolding eq by auto
    then show "\<not> isDrawGrid k \<and> \<not> isDrawDot k \<and> \<not> isDrawCandlesticks k"
    proof cases
      case 1 with pre show ?thesis by (intro pre_kinds) blast
    next
      case 2 then show ?thesis by simp
    next
      case 3 then show ?thesis by (rule leftEdgeFade_kinds)
    next
      case 4 with post show ?thesis by (intro post_kinds) blast
    qed
  qed
  from c obtain cpost where
    ceq: "issued ctx (drawCandleFrame ptsOfLine nf ctx layout palette copts) =
                 (if length (c_lineVisible copts) \<ge> 2
                  then [Prim Save, Prim (SetGlobalAlpha (max (c_lineModeProg copts) 1)),
                        Ext (DrawLine (candleLineArgs palette copts)), Prim Restore]
                  else [])
                 @ leftEdgeFade layout @ cpost"
    and cpost: "\<forall>k\<in>set cpost. isDrawEmpty k"
    by blast
  show "\<forall>k\<in>set (issued ctx (drawCandleFrame ptsOfLine nf ctx layout palette copts)).
               \<not> isDrawGrid k \<and> \<not> isDrawDot k \<and> \<not> isDrawCandlesticks k"
  proof
    fix k assume "k \<in> set (issued ctx (drawCandleFrame ptsOfLine nf ctx layout palette copts))"
    then consider "k = Prim Save" | "\<exists>a. k = Prim (SetGlobalAlpha a)"
      | "k = Ext (DrawLine (candleLineArgs palette copts))" | "k = Prim Restore"
      | "k \<in> set (leftEdgeFade layout)" | "k \<in> set cpost"
      unfolding ceq by (auto split: if_splits)
    then show "\<not> isDrawGrid k \<and> \<not> isDrawDot k \<and> \<not> isDrawCandlesticks k"
    proof cases
      case 5 then show ?thesis by (rule leftEdgeFade_kinds)
    next
      case 6 with cpost show ?thesis by (intro empty_kinds) blast
    qed auto
  qed
qed

theorem reveal_zero_hidden_layers_witness:
  "o_chartReveal ex_hiddenOpts = 0 \<and> c_chartReveal ex_hiddenCandleOpts = 0
   \<and> list_all (\<lambda>k. \<not> isDrawGrid k \<and> \<not> isDrawDot k \<and> \<not> isDrawCandlesticks k)
         (issued ctx0 (fst (drawFrame ex_env ex_nf ctx0 ex_layout ex_palette ex_hiddenOpts)))
   \<and> list_all (\<lambda>k. \<not> isDrawGrid k \<and> \<not> isDrawDot k \<and> \<not> isDrawCandlesticks k)
         (issued ctx0
           (drawCandleFrame (linePts ex_env) ex_nf ctx0 ex_layout ex_palette ex_hiddenCandleOpts))"
proof -
  have r: "o_chartReveal ex_hiddenOpts = 0" "c_chartReveal ex_hiddenCandleOpts = 0"
    by (simp_all add: ex_hiddenOpts_def ex_hiddenCandleOpts_def)
  note t = reveal_zero_hidden_layers[OF r, of ctx0 ex_env ex_nf ex_layout ex_palette "linePts ex_env"]
  from t have "\<forall>k\<in>set (issued ctx0 (fst (drawFrame ex_env ex_nf ctx0 ex_layout ex_palette ex_hiddenOpts))).
         \<not> isDrawGrid k \<and> \<not> isDrawDot k \<and> \<not> isDrawCandlesticks k"
    by (elim conjE)
  moreover from t have "\<forall>k\<in>set (issued ctx0
         (drawCandleFrame (linePts ex_env) ex_nf ctx0 ex_layout ex_palette ex_hiddenCandleOpts)).
         \<not> isDrawGrid k \<and> \<not> isDrawDot k \<and> \<not> isDrawCandlesticks k"
    by (elim conjE)
  ultimately show ?thesis using r unfolding list_all_iff by (intro conjI)
qed

subsection \<open>The candle composer in line mode\<close>

lemma lp_lineMode:
  assumes "0 \<le> reveal"
  shows "lp 1 reveal = 1"
  using assms by (simp add: lp_def revealLine_def fullLineMode_def)

lemma colorBlend_lineMode:
  assumes "0 \<le> reveal"
  shows "colorBlend 1 reveal = 1"
  using assms by (simp add: colorBlend_def lp_lineMode)

lemma candleAlpha_lineMode:
  assumes "c_lineModeProg opts = 1" "0 \<le> c_chartReveal opts"
  shows "candleAlpha opts = 0"
  using assms by (simp add: candleAlpha_def lp_lineMode)

lemma plainLayer_prim [simp]: "plainLayer (Prim p)"
  by (simp add: plainLayer_def)

lemma extends_bars_stage:
  assumes "\<And>p. P (Prim p)" "\<forall>k\<in>set pre. P k"
  shows "extends P c (run [Prim Restore] (drawBars nf layout barLayout bopts (run pre c)))"
proof -
  have "extends P c (run pre c)"
    using assms(2) by (rule extends_run)
  also have "extends P (run pre c) (drawBars nf layout barLayout bopts (run pre c))"
    using assms(1) by (rule extends_drawBars)
  also have "extends P (drawBars nf layout barLayout bopts (run pre c))
               (run [Prim Restore] (drawBars nf layout barLayout bopts (run pre c)))"
    using assms(1) by (intro extends_run) simp
  finally show ?thesis .
qed

lemma extends_run_run:
  assumes "\<forall>k\<in>set ks. P k" "\<forall>k\<in>set ks'. P k"
  shows "extends P c (run ks' (run ks c))"
  using assms unfolding run_append[symmetric] by (intro extends_run) auto

lemma candle_layers_plain:
  "extends plainLayer c (candleGrid opts c)"
  "extends plainLayer c (candleLine palette opts c)"
  "extends plainLayer c (candleClosePrice layout palette opts c)"
  "extends plainLayer c (candleDot pts opts c)"
  "extends plainLayer c (candleTimeAxis opts c)"
  "extends plainLayer c (run (leftEdgeFade layout) c)"
  "extends plainLayer c (candleEmpty layout opts c)"
  by (auto simp: candleGrid_def candleLine_def candleClosePrice_def candleDot_def
      candleTimeAxis_def candleEmpty_def leftEdgeFade_def layer_def Let_def plainLayer_def
      intro!: extends_refl extends_run extends_run_run split: option.splits)

lemma candle_bars_plain:
  "extends plainLayer c (candleBarsOverlay nf layout palette opts c)"
  "extends plainLayer c (candleBarsDefault nf layout palette opts c)"
  by (auto simp: candleBarsOverlay_def candleBarsDefault_def Let_def
      intro!: extends_refl extends_bars_stage split: option.splits)

lemma candleBodies_lineMode:
  assumes "c_lineModeProg opts = 1" "0 \<le> c_chartReveal opts"
  shows "candleBodies layout palette opts c = c"
  by (simp add: candleBodies_def Let_def candleAlpha_lineMode[OF assms])

lemma candleCrosshair_lineMode:
  assumes "c_lineModeProg opts = 1"
  shows "candleCrosshair opts c = run (lineModeCrosshairCalls opts) c"
  using assms
  by (auto simp: candleCrosshair_def lineModeCrosshairCalls_def Let_def run.simps
      split: option.splits)

lemma drawCandleFrame_lineMode_issued:
  assumes "c_lineModeProg opts = 1" "0 \<le> c_chartReveal opts"
  shows "\<exists>body. issued ctx (drawCandleFrame ptsOfLine nf ctx layout palette opts) =
                  body @ lineModeCrosshairCalls opts
                \<and> (\<forall>k\<in>set body. plainLayer k)"
proof -
  define pts where "pts = (if candleLineDrawn opts then ptsOfLine else None)"
  define c1 where "c1 = candleGrid opts ctx"
  define c1b where "c1b = candleBarsOverlay nf layout palette opts c1"
  define c2 where "c2 = candleLine palette opts c1b"
  define c3 where "c3 = candleClosePrice layout palette opts c2"
  define c4b where "c4b = candleBarsDefault nf layout palette opts c3"
  define c5 where "c5 = candleDot pts opts c4b"
  define c6 where "c6 = candleTimeAxis opts c5"
  define c7 where "c7 = run (leftEdgeFade layout) c6"
  define c8 where "c8 = candleEmpty layout opts c7"
  define c9 where "c9 = run (lineModeCrosshairCalls opts) c8"
  have res: "drawCandleFrame ptsOfLine nf ctx layout palette opts = c9"
    by (simp add: drawCandleFrame_def Let_def candleBodies_lineMode[OF assms]
        candleCrosshair_lineMode[OF assms(1)] pts_def c1_def c1b_def c2_def c3_def c4b_def
        c5_def c6_def c7_def c8_def c9_def)
  have "extends plainLayer ctx c1"
    unfolding c1_def by (rule candle_layers_plain)
  also have "extends plainLayer c1 c1b"
    unfolding c1b_def by (rule candle_bars_plain)
  also have "extends plainLayer c1b c2"
    unfolding c2_def by (rule candle_layers_plain)
  also have "extends plainLayer c2 c3"
    unfolding c3_def by (rule candle_layers_plain)
  also have "extends plainLayer c3 c4b"
    unfolding c4b_def by (rule candle_bars_plain)
  also have "extends plainLayer c4b c5"
    unfolding c5_def by (rule candle_layers_plain)
  also have "extends plainLayer c5 c6"
    unfolding c6_def by (rule candle_layers_plain)
  also have "extends plainLayer c6 c7"
    unfolding c7_def by (rule candle_layers_plain)
  also have "extends plainLayer c7 c8"
    unfolding c8_def by (rule candle_layers_plain)
  finally have body: "extends plainLayer ctx c8" .
  have last: "extends (\<lambda>k. True) c8 c9"
    unfolding c9_def by (rule extends_run) simp
  have "issued ctx c9 = issued ctx c8 @ issued c8 c9"
    using body last by (rule issued_chain)
  then have "issued ctx c9 = issued ctx c8 @ lineModeCrosshairCalls opts"
    by (simp add: c9_def issued_run)
  moreover have "\<forall>k\<in>set (issued ctx c8). plainLayer k"
    using body by (rule extends_issued)
  ultimately show ?thesis unfolding res by blast
qed

lemma ex_lineMode_issued:
  "issued ctx0 (drawCandleFrame (linePts ex_env) ex_nf ctx0 ex_layout ex_palette ex_lineModeOpts) =
     [Prim Save, Ext (DrawGrid 16), Prim Restore,
      Prim Save, Prim (SetGlobalAlpha 1), Ext (DrawLine (candleLineArgs ex_palette ex_lineModeOpts)),
      Prim Restore,
      Prim Save, Prim (SetGlobalAlpha 1), Ext (DrawDot 150 60 True 1 2000), Prim Restore,
      Prim Save, Ext (DrawTimeAxis 30 30 16), Prim Restore]
     @ leftEdgeFade ex_layout"
  by (simp add: issued_def drawCandleFrame_def Let_def candleGrid_def candleBarsOverlay_def
      candleLine_def candleLineDrawn_def candleClosePrice_def candleBodies_def candleAlpha_def
      candleBarsDefault_def candleDot_def candleTimeAxis_def candleEmpty_def candleCrosshair_def
      lp_def revealLine_def fullLineMode_def revealRamp_def layer_def leftEdgeFade_def
      ex_lineModeOpts_def ex_hiddenCandleOpts_def ex_env_def ex_candle_def ctx0_def
      run.simps issue_def effect_def)

text \<open>
  Claim C6 says that with \<open>lineModeProg = 1\<close> the line-mode crosshair is drawn once
  \<open>reveal > 0.7\<close>, a hovered candle exists and \<open>scrubAmount > 0.01\<close>. The stage also needs
  a hover position: with \<open>hoverX\<close> null no crosshair is drawn.
\<close>

theorem line_mode_crosshair_counterexample:
  "c_lineModeProg ex_lineModeOpts = 1 \<and> c_chartReveal ex_lineModeOpts > 0.7
   \<and> c_hoveredCandle ex_lineModeOpts = Some ex_candle \<and> c_scrubAmount ex_lineModeOpts > 0.01
   \<and> c_hoverX ex_lineModeOpts = None
   \<and> list_all (\<lambda>k. \<not> isDrawLineModeCrosshair k)
         (issued ctx0
           (drawCandleFrame (linePts ex_env) ex_nf ctx0 ex_layout ex_palette ex_lineModeOpts))"
  unfolding ex_lineMode_issued
  by (simp add: ex_lineModeOpts_def ex_hiddenCandleOpts_def leftEdgeFade_def)

text \<open>
  Claim C6, amended. For every call of the candle composer with \<open>lineModeProg = 1\<close> and
  \<open>reveal\<close> in \<open>[0,1]\<close>: \<open>lp = 1\<close>, \<open>colorBlend = 1\<close>, the candle alpha
  \<open>reveal * (1 - lp)\<close> is 0 and no candle body is drawn, the candle crosshair is never
  drawn, and the line-mode crosshair is drawn, as the last call, exactly when
  \<open>reveal > 0.7\<close>, a hovered candle exists, \<open>hoverX\<close> is not null and \<open>scrubAmount > 0.01\<close>.
\<close>

theorem line_mode_candle_frame:
  assumes "c_lineModeProg opts = 1" "0 \<le> c_chartReveal opts" "c_chartReveal opts \<le> 1"
  shows "lp (c_lineModeProg opts) (c_chartReveal opts) = 1
         \<and> colorBlend (c_lineModeProg opts) (c_chartReveal opts) = 1
         \<and> candleAlpha opts = 0
         \<and> (\<exists>body.
               issued ctx (drawCandleFrame ptsOfLine nf ctx layout palette opts) =
                 body
                 @ (if c_chartReveal opts > 0.7 \<and> c_hoveredCandle opts \<noteq> None
                       \<and> c_hoverX opts \<noteq> None \<and> c_scrubAmount opts > 0.01
                    then [Ext (DrawLineModeCrosshair (the (c_hoverX opts))
                                 (close (the (c_hoveredCandle opts)))
                                 (case c_hoverTime opts of None \<Rightarrow> 0 | Some t \<Rightarrow> t)
                                 (c_scrubAmount opts))]
                    else [])
               \<and> (\<forall>k\<in>set body. \<not> isDrawCandlesticks k \<and> \<not> isDrawCandleCrosshair k
                                   \<and> \<not> isDrawLineModeCrosshair k))"
proof (intro conjI)
  show "lp (c_lineModeProg opts) (c_chartReveal opts) = 1"
    using assms(1,2) by (simp add: lp_lineMode)
  show "colorBlend (c_lineModeProg opts) (c_chartReveal opts) = 1"
    using assms(1,2) by (simp add: colorBlend_lineMode)
  show "candleAlpha opts = 0"
    using assms(1,2) by (rule candleAlpha_lineMode)
  from drawCandleFrame_lineMode_issued[OF assms(1,2), of ctx ptsOfLine nf layout palette]
  show "\<exists>body.
               issued ctx (drawCandleFrame ptsOfLine nf ctx layout palette opts) =
                 body
                 @ (if c_chartReveal opts > 0.7 \<and> c_hoveredCandle opts \<noteq> None
                       \<and> c_hoverX opts \<noteq> None \<and> c_scrubAmount opts > 0.01
                    then [Ext (DrawLineModeCrosshair (the (c_hoverX opts))
                                 (close (the (c_hoveredCandle opts)))
                                 (case c_hoverTime opts of None \<Rightarrow> 0 | Some t \<Rightarrow> t)
                                 (c_scrubAmount opts))]
                    else [])
               \<and> (\<forall>k\<in>set body. \<not> isDrawCandlesticks k \<and> \<not> isDrawCandleCrosshair k
                                   \<and> \<not> isDrawLineModeCrosshair k)"
    unfolding lineModeCrosshairCalls_def plainLayer_def .
qed

theorem line_mode_candle_frame_witness:
  "c_lineModeProg (ex_lineModeOpts\<lparr> c_hoverX := Some 100 \<rparr>) = 1
   \<and> 0 \<le> c_chartReveal (ex_lineModeOpts\<lparr> c_hoverX := Some 100 \<rparr>)
   \<and> c_chartReveal (ex_lineModeOpts\<lparr> c_hoverX := Some 100 \<rparr>) \<le> 1
   \<and> candleAlpha (ex_lineModeOpts\<lparr> c_hoverX := Some 100 \<rparr>) = 0
   \<and> (\<exists>body.
         issued ctx0 (drawCandleFrame (linePts ex_env) ex_nf ctx0 ex_layout ex_palette
                        (ex_lineModeOpts\<lparr> c_hoverX := Some 100 \<rparr>)) =
           body @ [Ext (DrawLineModeCrosshair 100 12 0 1)]
         \<and> list_all (\<lambda>k. \<not> isDrawCandlesticks k \<and> \<not> isDrawCandleCrosshair k
                           \<and> \<not> isDrawLineModeCrosshair k) body)"
proof -
  let ?o = "ex_lineModeOpts\<lparr> c_hoverX := Some 100 \<rparr>"
  have h: "c_lineModeProg ?o = 1" "0 \<le> c_chartReveal ?o" "c_chartReveal ?o \<le> 1"
    by (simp_all add: ex_lineModeOpts_def ex_hiddenCandleOpts_def)
  have v: "c_chartReveal ?o > 0.7 \<and> c_hoveredCandle ?o \<noteq> None \<and> c_hoverX ?o \<noteq> None
             \<and> c_scrubAmount ?o > 0.01"
    "the (c_hoverX ?o) = 100" "close (the (c_hoveredCandle ?o)) = 12" "c_hoverTime ?o = None"
    "c_scrubAmount ?o = 1"
    by (simp_all add: ex_lineModeOpts_def ex_hiddenCandleOpts_def ex_candle_def)
  note t = line_mode_candle_frame[OF h, of ctx0 "linePts ex_env" ex_nf ex_layout ex_palette]
  from t have a: "candleAlpha ?o = 0" by (elim conjE)
  from t have "\<exists>body.
         issued ctx0 (drawCandleFrame (linePts ex_env) ex_nf ctx0 ex_layout ex_palette ?o) =
           body @ [Ext (DrawLineModeCrosshair 100 12 0 1)]
         \<and> list_all (\<lambda>k. \<not> isDrawCandlesticks k \<and> \<not> isDrawCandleCrosshair k
                           \<and> \<not> isDrawLineModeCrosshair k) body"
    unfolding list_all_iff using v by (elim conjE) simp
  with a h show ?thesis by (intro conjI)
qed

subsection \<open>The shake offset and its restore\<close>

lemma saved_issue:
  "length (saved (issue k c)) =
     (if k = Prim Save then Suc (length (saved c))
      else if k = Prim Restore then length (saved c) - 1 else length (saved c))"
  by (auto simp: issue_def effect_def split: call.splits prim.splits list.splits)

lemma depth_run: "length (saved (run ks c)) = depthAfter ks (length (saved c))"
  by (induction ks arbitrary: c) (simp_all add: run.simps saved_issue)

lemma depthAfter_append: "depthAfter (ks @ ks') n = depthAfter ks' (depthAfter ks n)"
  by (induction ks arbitrary: n) simp_all

lemma depthAfter_flat:
  assumes "\<forall>k\<in>set ks. k \<noteq> Prim Save \<and> k \<noteq> Prim Restore"
  shows "depthAfter ks n = n"
  using assms by (induction ks arbitrary: n) simp_all

lemma depthAfter_layer:
  assumes "\<forall>k\<in>set ks. k \<noteq> Prim Save \<and> k \<noteq> Prim Restore"
  shows "depthAfter (layer a ks) n = n"
  using assms by (simp add: layer_def depthAfter_append depthAfter_flat)

lemma drawBar_flat:
  assumes "k \<in> set (drawBar layout barLayout opts w hb r a b)"
  shows "k \<noteq> Prim Save \<and> k \<noteq> Prim Restore"
  using assms by (auto simp: drawBar_def Let_def split: if_splits option.splits)

lemma drawBarLabel_flat:
  assumes "k \<in> set (drawBarLabel nf layout barLayout opts fs b)"
  shows "k \<noteq> Prim Save \<and> k \<noteq> Prim Restore"
  using drawBarLabel_kind[OF assms] by auto

lemma depthAfter_barsBody: "depthAfter (barsBody nf layout barLayout opts w r fs a) n = n"
proof -
  have bars: "depthAfter (concat (map (drawBar layout barLayout opts w (w / 2) r a) (b_bars opts))) m = m"
    for m
    by (rule depthAfter_flat) (auto dest: drawBar_flat)
  have labels: "depthAfter (concat (map (drawBarLabel nf layout barLayout opts fs) (b_bars opts))) m = m"
    for m
    by (rule depthAfter_flat) (auto dest: drawBarLabel_flat)
  show ?thesis
    by (simp add: barsBody_def depthAfter_append bars labels)
qed

lemma depth_drawBars: "length (saved (drawBars nf layout barLayout opts c)) = length (saved c)"
  by (simp add: drawBars_run depth_run barsCalls_def Let_def depthAfter_barsBody)

lemma frame_layers_depth:
  "length (saved (frameReferenceLine opts c)) = length (saved c)"
  "length (saved (frameGrid opts c)) = length (saved c)"
  "length (saved (frameOrderbook opts c)) = length (saved c)"
  "length (saved (frameLine palette opts c)) = length (saved c)"
  "length (saved (frameTimeAxis opts c)) = length (saved c)"
  "length (saved (frameDot layout opts lastPt c)) = length (saved c)"
  "length (saved (frameArrows opts lastPt c)) = length (saved c)"
  "length (saved (run (leftEdgeFade layout) c)) = length (saved c)"
  "length (saved (frameCrosshair env layout opts c)) = length (saved c)"
  by (simp_all add: frameReferenceLine_def frameGrid_def frameOrderbook_def frameLine_def
      frameTimeAxis_def frameDot_def frameArrows_def frameCrosshair_def leftEdgeFade_def
      Let_def depth_run depthAfter_layer split: option.splits)

lemma frameParticles_depth:
  "length (saved (fst (frameParticles env palette opts lastPt (c, shake)))) = length (saved c)"
  by (simp add: frameParticles_def Let_def depth_run)

lemma frame_bars_depth:
  "length (saved (frameBarsOverlay nf layout palette opts c)) = length (saved c)"
  "length (saved (frameBarsDefault nf layout palette opts c)) = length (saved c)"
  by (simp_all add: frameBarsOverlay_def frameBarsDefault_def Let_def depth_run depth_drawBars
      split: option.splits)

lemma frameShake_depth:
  "length (saved (fst (frameShake env opts c))) =
     (case o_shakeState opts of
        None \<Rightarrow> length (saved c)
      | Some shake \<Rightarrow>
          if amplitude shake > SHAKE_MIN_AMPLITUDE then Suc (length (saved c))
          else length (saved c))"
  by (simp add: frameShake_def Let_def depth_run split: option.splits)

lemma frameShake_offsets:
  "snd (frameShake env opts c) =
     (case o_shakeState opts of
        None \<Rightarrow> (0, 0)
      | Some shake \<Rightarrow>
          if amplitude shake > SHAKE_MIN_AMPLITUDE
          then ((rand1 env - 0.5) * 2 * amplitude shake, (rand2 env - 0.5) * 2 * amplitude shake)
          else (0, 0))"
  by (simp add: frameShake_def Let_def split: option.splits)

lemma drawFrame_layers:
  "fst (drawFrame env nf ctx layout palette opts) =
     (let c8 = frameLayers env nf layout palette opts (fst (frameShake env opts ctx));
          shakeX = fst (snd (frameShake env opts ctx));
          shakeY = snd (snd (frameShake env opts ctx))
      in if o_shakeState opts \<noteq> None \<and> (shakeX \<noteq> 0 \<or> shakeY \<noteq> 0)
         then run [Prim Restore] c8 else c8)"
  by (simp add: drawFrame_def frameLayers_def Let_def split_beta split: option.splits)

lemma frameLayers_depth:
  "length (saved (frameLayers env nf layout palette opts c)) = length (saved c)"
  by (simp add: frameLayers_def Let_def frame_layers_depth frame_bars_depth frameParticles_depth
      split: option.splits)

lemma frame_layers_extend:
  "extends (\<lambda>k. True) c (frameReferenceLine opts c)"
  "extends (\<lambda>k. True) c (frameGrid opts c)"
  "extends (\<lambda>k. True) c (frameOrderbook opts c)"
  "extends (\<lambda>k. True) c (frameLine palette opts c)"
  "extends (\<lambda>k. True) c (frameTimeAxis opts c)"
  "extends (\<lambda>k. True) c (frameDot layout opts lastPt c)"
  "extends (\<lambda>k. True) c (frameArrows opts lastPt c)"
  "extends (\<lambda>k. True) c (run ks c)"
  "extends (\<lambda>k. True) c (frameCrosshair env layout opts c)"
  "extends (\<lambda>k. True) c (fst (frameParticles env palette opts lastPt (c, shake)))"
  "extends (\<lambda>k. True) c (frameBarsOverlay nf layout palette opts c)"
  "extends (\<lambda>k. True) c (frameBarsDefault nf layout palette opts c)"
  by (auto simp: frameReferenceLine_def frameGrid_def frameOrderbook_def frameLine_def
      frameTimeAxis_def frameDot_def frameArrows_def frameCrosshair_def frameParticles_def
      frameBarsOverlay_def frameBarsDefault_def Let_def
      intro!: extends_refl extends_run extends_run_run extends_bars_stage split: option.splits)

lemma frameLayers_extend: "extends (\<lambda>k. True) c (frameLayers env nf layout palette opts c)"
proof -
  define shake where "shake = map_option (decayShake (o_dt opts)) (o_shakeState opts)"
  define c1 where "c1 = frameReferenceLine opts c"
  define c2 where "c2 = frameGrid opts c1"
  define c2b where "c2b = frameOrderbook opts c2"
  define c2c where "c2c = frameBarsOverlay nf layout palette opts c2b"
  define c3 where "c3 = frameLine palette opts c2c"
  define c4 where "c4 = frameTimeAxis opts c3"
  define c6 where "c6 = (case linePts env of
                  None \<Rightarrow> c4
                | Some ps \<Rightarrow>
                    if length ps > 0 then
                      (let lastPt = last ps;
                           c5 = frameDot layout opts lastPt c4;
                           c5b = frameArrows opts lastPt c5
                       in fst (frameParticles env palette opts lastPt (c5b, shake)))
                    else c4)"
  define c6b where "c6b = frameBarsDefault nf layout palette opts c6"
  define c7 where "c7 = run (leftEdgeFade layout) c6b"
  define c8 where "c8 = frameCrosshair env layout opts c7"
  have res: "frameLayers env nf layout palette opts c = c8"
    unfolding c8_def c7_def c6b_def c6_def c4_def c3_def c2c_def c2b_def c2_def c1_def shake_def
      frameLayers_def Let_def ..
  let ?T = "\<lambda>k. True"
  have e46: "extends ?T c4 c6"
  proof (cases "linePts env")
    case None
    then show ?thesis by (simp add: c6_def extends_refl)
  next
    case (Some ps)
    show ?thesis
    proof (cases "length ps > 0")
      case False
      with Some show ?thesis by (simp add: c6_def extends_refl)
    next
      case True
      have "extends ?T c4 (frameDot layout opts (last ps) c4)"
        by (rule frame_layers_extend)
      also have "extends ?T (frameDot layout opts (last ps) c4)
                   (frameArrows opts (last ps) (frameDot layout opts (last ps) c4))"
        by (rule frame_layers_extend)
      also have "extends ?T (frameArrows opts (last ps) (frameDot layout opts (last ps) c4))
                   (fst (frameParticles env palette opts (last ps)
                           (frameArrows opts (last ps) (frameDot layout opts (last ps) c4), shake)))"
        by (rule frame_layers_extend)
      finally show ?thesis
        using Some True by (simp add: c6_def Let_def)
    qed
  qed
  have "extends ?T c c1" unfolding c1_def by (rule frame_layers_extend)
  also have "extends ?T c1 c2" unfolding c2_def by (rule frame_layers_extend)
  also have "extends ?T c2 c2b" unfolding c2b_def by (rule frame_layers_extend)
  also have "extends ?T c2b c2c" unfolding c2c_def by (rule frame_layers_extend)
  also have "extends ?T c2c c3" unfolding c3_def by (rule frame_layers_extend)
  also have "extends ?T c3 c4" unfolding c4_def by (rule frame_layers_extend)
  also note e46
  also have "extends ?T c6 c6b" unfolding c6b_def by (rule frame_layers_extend)
  also have "extends ?T c6b c7" unfolding c7_def by (rule frame_layers_extend)
  also have "extends ?T c7 c8" unfolding c8_def by (rule frame_layers_extend)
  finally show ?thesis unfolding res .
qed

lemma drawFrame_armed:
  assumes "o_shakeState opts = Some shake" "amplitude shake > SHAKE_MIN_AMPLITUDE"
  shows "length (saved (fst (drawFrame env nf ctx layout palette opts))) =
           length (saved ctx) + (if rand1 env = 1 / 2 \<and> rand2 env = 1 / 2 then 1 else 0)"
    and "\<exists>rest. issued ctx (fst (drawFrame env nf ctx layout palette opts)) =
           [Prim Save,
            Prim (Translate ((rand1 env - 0.5) * 2 * amplitude shake)
                            ((rand2 env - 0.5) * 2 * amplitude shake))] @ rest"
proof -
  let ?sx = "(rand1 env - 0.5) * 2 * amplitude shake"
  let ?sy = "(rand2 env - 0.5) * 2 * amplitude shake"
  define c0 where "c0 = run [Prim Save, Prim (Translate ?sx ?sy)] ctx"
  define c8 where "c8 = frameLayers env nf layout palette opts c0"
  define c9 where "c9 = (if rand1 env = 1 / 2 \<and> rand2 env = 1 / 2 then c8
                         else run [Prim Restore] c8)"
  have sh: "frameShake env opts ctx = (c0, ?sx, ?sy)"
    using assms by (simp add: frameShake_def Let_def c0_def)
  have pos: "amplitude shake > 0"
    using assms(2) by (simp add: SHAKE_MIN_AMPLITUDE_def)
  have res: "fst (drawFrame env nf ctx layout palette opts) = c9"
  proof (cases "rand1 env = 1 / 2 \<and> rand2 env = 1 / 2")
    case True
    then have "?sx = 0" "?sy = 0" by simp_all
    then show ?thesis
      using True by (simp add: drawFrame_layers sh Let_def c8_def c9_def)
  next
    case False
    then have "?sx \<noteq> 0 \<or> ?sy \<noteq> 0" using pos by auto
    then show ?thesis
      using False assms(1) pos by (auto simp: drawFrame_layers sh Let_def c8_def c9_def)
  qed
  have d8: "length (saved c8) = Suc (length (saved ctx))"
    by (simp add: c8_def frameLayers_depth c0_def depth_run)
  show "length (saved (fst (drawFrame env nf ctx layout palette opts))) =
           length (saved ctx) + (if rand1 env = 1 / 2 \<and> rand2 env = 1 / 2 then 1 else 0)"
    unfolding res c9_def by (simp add: depth_run d8)
  let ?T = "\<lambda>k. True"
  have e0: "extends ?T ctx c0"
    unfolding c0_def by (rule extends_run) simp
  have "extends ?T c0 c8"
    unfolding c8_def by (rule frameLayers_extend)
  also have "extends ?T c8 c9"
    unfolding c9_def by (auto intro!: extends_refl extends_run)
  finally have e9: "extends ?T c0 c9" .
  have "issued ctx c9 = issued ctx c0 @ issued c0 c9"
    using e0 e9 by (rule issued_chain)
  then show "\<exists>rest. issued ctx (fst (drawFrame env nf ctx layout palette opts)) =
           [Prim Save, Prim (Translate ?sx ?sy)] @ rest"
    unfolding res by (simp add: c0_def issued_run)
qed

lemma shake_offset_bound:
  fixes r a :: real
  assumes "0 \<le> r" "r < 1" "0 \<le> a"
  shows "\<bar>(r - 0.5) * 2 * a\<bar> \<le> a"
proof -
  have "\<bar>(r - 0.5) * 2\<bar> \<le> 1" using assms(1,2) by (simp add: abs_le_iff)
  then have "\<bar>(r - 0.5) * 2\<bar> * \<bar>a\<bar> \<le> 1 * \<bar>a\<bar>"
    by (intro mult_right_mono) simp_all
  then show ?thesis using assms(3) by (simp add: abs_mult)
qed

text \<open>
  Claim C8. In a call of \<open>drawFrame\<close> with the shake amplitude above the threshold, the
  context is saved and translated by \<open>((r\<^sub>1 - 0.5) * 2 * amplitude, (r\<^sub>2 - 0.5) * 2 * amplitude)\<close>
  before any other call, each offset within \<open>[-amplitude, amplitude]\<close> for draws in \<open>[0,1)\<close>.
  The claim has the save matched by a restore for every value of the two draws. The final
  restore is guarded by \<open>shakeX \<noteq> 0 || shakeY \<noteq> 0\<close>: the depth of the stack is unchanged
  by the call unless both draws are exactly \<open>1/2\<close>, and then the call returns one level
  deeper than it started.
\<close>

theorem shake_offset_and_restore:
  assumes "o_shakeState opts = Some shake" "amplitude shake > SHAKE_MIN_AMPLITUDE"
  shows "(\<exists>rest. issued ctx (fst (drawFrame env nf ctx layout palette opts)) =
            [Prim Save,
             Prim (Translate ((rand1 env - 0.5) * 2 * amplitude shake)
                             ((rand2 env - 0.5) * 2 * amplitude shake))] @ rest)
         \<and> (0 \<le> rand1 env \<and> rand1 env < 1 \<longrightarrow>
              \<bar>(rand1 env - 0.5) * 2 * amplitude shake\<bar> \<le> amplitude shake)
         \<and> (0 \<le> rand2 env \<and> rand2 env < 1 \<longrightarrow>
              \<bar>(rand2 env - 0.5) * 2 * amplitude shake\<bar> \<le> amplitude shake)
         \<and> length (saved (fst (drawFrame env nf ctx layout palette opts))) =
              length (saved ctx) + (if rand1 env = 1 / 2 \<and> rand2 env = 1 / 2 then 1 else 0)"
proof (intro conjI impI)
  have nonneg: "0 \<le> amplitude shake"
    using assms(2) by (simp add: SHAKE_MIN_AMPLITUDE_def)
  show "\<exists>rest. issued ctx (fst (drawFrame env nf ctx layout palette opts)) =
            [Prim Save,
             Prim (Translate ((rand1 env - 0.5) * 2 * amplitude shake)
                             ((rand2 env - 0.5) * 2 * amplitude shake))] @ rest"
    using assms by (rule drawFrame_armed(2))
  show "\<bar>(rand1 env - 0.5) * 2 * amplitude shake\<bar> \<le> amplitude shake"
    if "0 \<le> rand1 env \<and> rand1 env < 1"
    using that nonneg by (intro shake_offset_bound) simp_all
  show "\<bar>(rand2 env - 0.5) * 2 * amplitude shake\<bar> \<le> amplitude shake"
    if "0 \<le> rand2 env \<and> rand2 env < 1"
    using that nonneg by (intro shake_offset_bound) simp_all
  show "length (saved (fst (drawFrame env nf ctx layout palette opts))) =
              length (saved ctx) + (if rand1 env = 1 / 2 \<and> rand2 env = 1 / 2 then 1 else 0)"
    using assms by (rule drawFrame_armed(1))
qed

theorem shake_offset_and_restore_witness:
  "o_shakeState ex_shakeOpts = Some \<lparr> amplitude = 1 \<rparr>
   \<and> amplitude \<lparr> amplitude = 1 \<rparr> > SHAKE_MIN_AMPLITUDE
   \<and> rand1 ex_env = 1 / 2 \<and> rand2 ex_env = 1 / 2
   \<and> saved ctx0 = []
   \<and> length (saved (fst (drawFrame ex_env ex_nf ctx0 ex_layout ex_palette ex_shakeOpts))) = 1"
proof -
  have h: "o_shakeState ex_shakeOpts = Some \<lparr> amplitude = 1 \<rparr>"
    "amplitude \<lparr> amplitude = 1 \<rparr> > SHAKE_MIN_AMPLITUDE"
    by (simp_all add: ex_shakeOpts_def SHAKE_MIN_AMPLITUDE_def)
  have r: "rand1 ex_env = 1 / 2" "rand2 ex_env = 1 / 2"
    by (simp_all add: ex_env_def)
  have s: "saved ctx0 = []"
    by (simp add: ctx0_def)
  note t = shake_offset_and_restore[OF h, of ctx0 ex_env ex_nf ex_layout ex_palette]
  from t have "length (saved (fst (drawFrame ex_env ex_nf ctx0 ex_layout ex_palette ex_shakeOpts))) =
              length (saved ctx0) + (if rand1 ex_env = 1 / 2 \<and> rand2 ex_env = 1 / 2 then 1 else 0)"
    by (elim conjE)
  then have "length (saved (fst (drawFrame ex_env ex_nf ctx0 ex_layout ex_palette ex_shakeOpts))) = 1"
    by (simp add: r s)
  with h r s show ?thesis by (intro conjI)
qed

lemma ex_shake_issued:
  "issued ctx0 (fst (drawFrame ex_env ex_nf ctx0 ex_layout ex_palette ex_shakeOpts)) =
     [Prim Save, Prim (Translate 0 0),
      Prim Save, Ext (DrawGrid 16), Prim Restore,
      Ext (DrawLine (frameLineArgs ex_palette ex_shakeOpts)),
      Prim Save, Ext (DrawTimeAxis 30 30 16), Prim Restore,
      Prim Save, Ext (DrawDot 150 60 True 0 2000), Prim Restore,
      Prim Save, Ext (DrawArrows 150 60 16 2000), Prim Restore]
     @ leftEdgeFade ex_layout"
  "saved (fst (drawFrame ex_env ex_nf ctx0 ex_layout ex_palette ex_shakeOpts)) = [(1, 0, 0)]"
  by (simp_all add: issued_def drawFrame_def Let_def frameShake_def frameReferenceLine_def
      frameGrid_def frameOrderbook_def frameBarsOverlay_def frameLine_def frameTimeAxis_def
      frameDot_def frame_dotScrub_def frameArrows_def frameParticles_def frameBarsDefault_def
      frameCrosshair_def revealRamp_def layer_def leftEdgeFade_def
      ex_shakeOpts_def ex_hiddenOpts_def ex_env_def ctx0_def SHAKE_MIN_AMPLITUDE_def
      run.simps issue_def effect_def)

subsection \<open>The proximity fade in the composers\<close>























end
